theory Spec2Isabelle
  imports Main "HOL-Library.AList"
begin

section \<open>Decimal rendering of Python integers\<close>

text \<open>
  Both scripts format integers into strings (\<^verbatim>\<open>f"_{counter}"\<close>,
  \<^verbatim>\<open>f"SSH_{host}:{port}"\<close>, \<^verbatim>\<open>f"Fetched {len(raw_data)} parameter rows."\<close>).
  \<open>str_nat\<close> is Python's \<^verbatim>\<open>str\<close> on a non-negative integer.
\<close>

definition digit_char :: "nat \<Rightarrow> char" where
  "digit_char d = ''0123456789'' ! d"

function str_nat :: "nat \<Rightarrow> string" where
  "str_nat n = (if n < 10 then [digit_char n] else str_nat (n div 10) @ [digit_char (n mod 10)])"
  by pat_completeness auto
termination
  by (relation "measure id") auto

definition str_int :: "int \<Rightarrow> string" where
  "str_int i = (if i < 0 then CHR ''-'' # str_nat (nat (- i)) else str_nat (nat i))"

text \<open>A number is smaller than ten to the number of its digits.\<close>

declare str_nat.simps [simp del]

lemma str_nat_bound: "n < 10 ^ length (str_nat n)"
proof (induction n rule: str_nat.induct)
  case (1 n)
  show ?case
  proof (cases "n < 10")
    case True
    then show ?thesis by (subst str_nat.simps) simp
  next
    case False
    with 1 have IH: "n div 10 < 10 ^ length (str_nat (n div 10))" by simp
    have "n < 10 * (n div 10 + 1)" by presburger
    also from IH have "\<dots> \<le> 10 * 10 ^ length (str_nat (n div 10))" by simp
    finally show ?thesis using False by (subst str_nat.simps) simp
  qed
qed

section \<open>guacamole-export.py: the database exporter\<close>

subsection \<open>Rows of the export query\<close>

text \<open>
  A row of \<^verbatim>\<open>cursor.fetchall()\<close> is a 6-tuple in the order of the query's
  SELECT list: \<^verbatim>\<open>c.connection_id, c.connection_name,
  'ROOT/' || COALESCE(cgp.full_path, '') AS group_path, c.protocol,
  p.parameter_name, p.parameter_value\<close>. The two parameter columns come from a
  LEFT JOIN and are \<^verbatim>\<open>None\<close> for a connection without parameters.
\<close>

type_synonym row = "int \<times> string \<times> string \<times> string \<times> string option \<times> string option"

definition col_connection_id :: "row \<Rightarrow> int" where
  "col_connection_id r = fst r"

definition col_connection_name :: "row \<Rightarrow> string" where
  "col_connection_name r = fst (snd r)"

definition col_group_path :: "row \<Rightarrow> string" where
  "col_group_path r = fst (snd (snd r))"

definition col_protocol :: "row \<Rightarrow> string" where
  "col_protocol r = fst (snd (snd (snd r)))"

definition col_parameter_name :: "row \<Rightarrow> string option" where
  "col_parameter_name r = fst (snd (snd (snd (snd r))))"

definition col_parameter_value :: "row \<Rightarrow> string option" where
  "col_parameter_value r = snd (snd (snd (snd (snd r))))"

subsection \<open>build_connection_dict\<close>

text \<open>
  The value stored per connection id is the dict
  \<^verbatim>\<open>{"name": .., "protocol": .., "group": .., "parameters": {}}\<close>. Python dicts keep
  insertion order and \<^verbatim>\<open>d[k] = v\<close> overwrites in place, which is
  \<^const>\<open>AList.update\<close> on an association list.
\<close>

record connection =
  conn_name :: string
  conn_protocol :: string
  conn_group :: string
  conn_parameters :: "(string \<times> string option) list"

text \<open>
  One iteration of \<^verbatim>\<open>for row in rows\<close>. The tuple pattern is the source's
  \<^verbatim>\<open>conn_id, name, parent_id, group_name, param_name, param_value = row\<close>, with the
  source's variable names in the source's positions.
\<close>

fun build_row :: "(int \<times> connection) list \<Rightarrow> row \<Rightarrow> (int \<times> connection) list" where
  "build_row connections_map (conn_id, name, parent_id, group_name, param_name, param_value) =
     (let connections_map1 =
            (if map_of connections_map conn_id = None
             then connections_map @
                    [(conn_id, \<lparr>conn_name = name, conn_protocol = group_name,
                                conn_group = parent_id, conn_parameters = []\<rparr>)]
             else connections_map)
      in case param_name of
           None \<Rightarrow> connections_map1
         | Some k \<Rightarrow>
             AList.map_entry conn_id
               (\<lambda>c. c\<lparr>conn_parameters := AList.update k param_value (conn_parameters c)\<rparr>)
               connections_map1)"

definition build_connections_map :: "row list \<Rightarrow> (int \<times> connection) list" where
  "build_connections_map rows = foldl build_row [] rows"

definition build_connection_dict :: "row list \<Rightarrow> connection list" where
  "build_connection_dict rows = map snd (build_connections_map rows)"

subsection \<open>main\<close>

text \<open>
  The script's configuration constants, the outcome of each external operation
  (\<^verbatim>\<open>psycopg2.connect\<close>, \<^verbatim>\<open>cursor.execute\<close> with \<^verbatim>\<open>fetchall\<close>, and writing
  the output file), and the trace of effects of one run. \<open>Inl e\<close> is the
  \<^verbatim>\<open>psycopg2.Error\<close> (for the write: the \<^verbatim>\<open>IOError\<close>) with message \<open>e\<close>.
\<close>

record config =
  DB_HOST :: string
  DB_PORT :: string
  DB_NAME :: string
  DB_USER :: string
  DB_PASS :: string
  OUTPUT_FILE :: string

definition shipped_config :: config where
  "shipped_config =
     \<lparr>DB_HOST = ''localhost'', DB_PORT = ''5432'', DB_NAME = ''guacamole_db'',
      DB_USER = ''guacamole_user'', DB_PASS = ''guacamole_user_password'',
      OUTPUT_FILE = ''guacamole_connections_db_export.json''\<rparr>"

record db_env =
  connect_result :: "string + unit"
  query_result :: "string + row list"
  write_result :: "string + unit"

datatype event =
    Print string
  | OpenConnection
  | OpenCursor
  | CloseCursor
  | JsonDumpToFile string "connection list"
  | CloseConnection

text \<open>
  \<^verbatim>\<open>fetch_connections_and_params\<close>: the cursor is closed in the \<^verbatim>\<open>finally\<close>
  clause on both paths; on \<^verbatim>\<open>psycopg2.Error\<close> the handler prints and calls
  \<^verbatim>\<open>sys.exit(1)\<close>, so the function yields no rows (\<open>None\<close>) and the
  \<^verbatim>\<open>SystemExit\<close> leaves \<^verbatim>\<open>main\<close> as well.
\<close>

definition fetch_connections_and_params :: "db_env \<Rightarrow> event list \<times> row list option" where
  "fetch_connections_and_params env =
     (case query_result env of
        Inr rows \<Rightarrow> ([OpenCursor, CloseCursor], Some rows)
      | Inl e \<Rightarrow>
          ([OpenCursor, Print (''Error executing database query: '' @ e), CloseCursor], None))"

text \<open>A run of \<^verbatim>\<open>main\<close>: the effects in order, and the exit status of the process.\<close>

definition main :: "config \<Rightarrow> db_env \<Rightarrow> event list \<times> nat" where
  "main cfg env =
     (let banner =
            [Print ''Starting Guacamole PostgreSQL Export Script...'',
             Print (''Target Database: '' @ DB_NAME cfg @ '' on '' @ DB_HOST cfg @ '':'' @ DB_PORT cfg),
             Print (''Target Output File: '' @ OUTPUT_FILE cfg)]
      in if \<not> list_all (\<lambda>v. v \<noteq> []) [DB_HOST cfg, DB_PORT cfg, DB_NAME cfg, DB_USER cfg, DB_PASS cfg]
         then (banner @ [Print ''Error: Please configure all DB_* variables in the script.''], 1)
         else
           (case connect_result env of
              Inl e \<Rightarrow>
                (banner @ [Print ''\<newline>Connecting to PostgreSQL database...'',
                           Print (''Error connecting to PostgreSQL database: '' @ e)], 1)
            | Inr _ \<Rightarrow>
                (let connected =
                       banner @ [Print ''\<newline>Connecting to PostgreSQL database...'',
                                 OpenConnection,
                                 Print ''Connected successfully.'',
                                 Print ''\<newline>Fetching connections and parameters from database...'']
                 in case fetch_connections_and_params env of
                      (fetching, None) \<Rightarrow> (connected @ fetching, 1)
                    | (fetching, Some raw_data) \<Rightarrow>
                        (let connections_list = build_connection_dict raw_data;
                             built =
                               connected @ fetching @
                               [Print (''Fetched '' @ str_nat (length raw_data) @ '' parameter rows.''),
                                Print ''\<newline>Building connection objects...'',
                                Print (''Built '' @ str_nat (length connections_list) @ '' connection objects.''),
                                Print (''\<newline>Writing export to '' @ OUTPUT_FILE cfg @ ''...'')];
                             closing = [CloseConnection, Print ''Database connection closed.'']
                         in case write_result env of
                              Inr _ \<Rightarrow>
                                (built @
                                 [JsonDumpToFile (OUTPUT_FILE cfg) connections_list,
                                  Print (''Export completed successfully. Data written to '' @ [CHR 0x27] @
                                         OUTPUT_FILE cfg @ [CHR 0x27] @ ''.''),
                                  Print ''*** WARNING: This file contains sensitive data including ENCRYPTED passwords stored in the database. Store it securely and delete it after use. ***''] @
                                 closing, 0)
                            | Inl e \<Rightarrow>
                                (built @
                                 [Print (''Error writing to file '' @ OUTPUT_FILE cfg @ '': '' @ e)] @
                                 closing, 1)))))"

section \<open>rdm\_to\_guac\_json.py: the document converter\<close>

subsection \<open>The parsed document\<close>

text \<open>
  An \<^verbatim>\<open>xml.etree.ElementTree.Element\<close>: its tag, its \<^verbatim>\<open>text\<close> (\<^verbatim>\<open>None\<close> when
  the element has no character data before its first child) and its children in
  document order. Attributes and tails are never read by the script. Strings are
  sequences of 8-bit characters, read as the code points 0 to 255.
\<close>

datatype element = Element (elem_tag: string) (elem_text: "string option") (elem_children: "element list")

text \<open>\<^verbatim>\<open>elem.find(tag)\<close> with a plain tag: the first direct child with that tag.\<close>

definition elem_find :: "string \<Rightarrow> element \<Rightarrow> element option" where
  "elem_find t e = find (\<lambda>c. elem_tag c = t) (elem_children e)"

text \<open>
  \<^verbatim>\<open>root.findall('.//Connection')\<close>: every element below the root (the root itself
  excluded) with the tag, in document order, nested ones included.
\<close>

fun descendants :: "element \<Rightarrow> element list" where
  "descendants (Element t x cs) = concat (map (\<lambda>c. c # descendants c) cs)"

definition findall_descendants :: "string \<Rightarrow> element \<Rightarrow> element list" where
  "findall_descendants t root = filter (\<lambda>e. elem_tag e = t) (descendants root)"

subsection \<open>Python values\<close>

datatype py_error = AttributeError | ValueError | UnboundLocalError

datatype pyval = PyNone | PyStr string | PyInt int

definition to_pyval :: "string option \<Rightarrow> pyval" where
  "to_pyval x = (case x of None \<Rightarrow> PyNone | Some s \<Rightarrow> PyStr s)"

text \<open>How an f-string renders a value that is a string or \<^verbatim>\<open>None\<close>.\<close>

definition py_str :: "string option \<Rightarrow> string" where
  "py_str x = (case x of None \<Rightarrow> ''None'' | Some s \<Rightarrow> s)"

text \<open>Truth value of a string or \<^verbatim>\<open>None\<close>: false for \<^verbatim>\<open>None\<close> and for \<^verbatim>\<open>''\<close>.\<close>

definition truthy :: "string option \<Rightarrow> bool" where
  "truthy x = (case x of None \<Rightarrow> False | Some s \<Rightarrow> s \<noteq> [])"

text \<open>\<^verbatim>\<open>x_elem.text if x_elem is not None else ''\<close>\<close>

definition text_or_empty :: "element option \<Rightarrow> string option" where
  "text_or_empty x = (case x of None \<Rightarrow> Some [] | Some e \<Rightarrow> elem_text e)"

text \<open>
  \<^verbatim>\<open>a or b\<close> on two results of \<^verbatim>\<open>find\<close>: \<^verbatim>\<open>None\<close> is false, and an
  \<^verbatim>\<open>Element\<close> is false when it has no children (\<^verbatim>\<open>Element.__bool__\<close> tests
  \<^verbatim>\<open>len(self) != 0\<close>).
\<close>

definition elem_or :: "element option \<Rightarrow> element option \<Rightarrow> element option" where
  "elem_or a b = (case a of None \<Rightarrow> b | Some e \<Rightarrow> (if elem_children e \<noteq> [] then Some e else b))"

text \<open>
  \<^verbatim>\<open>str.isdigit\<close> and \<^verbatim>\<open>int\<close> on the code points 0 to 255: \<^verbatim>\<open>isdigit\<close> accepts
  the ASCII digits and the superscripts U+00B2, U+00B3 and U+00B9; \<^verbatim>\<open>int\<close> accepts
  only decimal digits and raises \<^verbatim>\<open>ValueError\<close> on the superscripts. CPython's
  \<^verbatim>\<open>int\<close> also raises \<^verbatim>\<open>ValueError\<close> on a text of more than
  \<^verbatim>\<open>sys.int_max_str_digits\<close> digits, 4300 unless the interpreter is configured
  otherwise.
\<close>

definition is_decimal :: "char \<Rightarrow> bool" where
  "is_decimal c = (c \<in> set ''0123456789'')"

definition is_superscript_digit :: "char \<Rightarrow> bool" where
  "is_superscript_digit c = (c = CHR 0xB2 \<or> c = CHR 0xB3 \<or> c = CHR 0xB9)"

definition isdigit :: "string \<Rightarrow> bool" where
  "isdigit s = (s \<noteq> [] \<and> list_all (\<lambda>c. is_decimal c \<or> is_superscript_digit c) s)"

definition digit_value :: "char \<Rightarrow> nat" where
  "digit_value c = of_char c - 48"

definition int_max_str_digits :: nat where
  "int_max_str_digits = 4300"

definition py_int :: "string \<Rightarrow> py_error + int" where
  "py_int s =
     (if s \<noteq> [] \<and> list_all is_decimal s \<and> length s \<le> int_max_str_digits
      then Inr (int (foldl (\<lambda>a c. 10 * a + digit_value c) 0 s))
      else Inl ValueError)"

text \<open>
  \<^verbatim>\<open>int(port_elem.text) if port_elem is not None and port_elem.text.isdigit() else default\<close>:
  \<^verbatim>\<open>.isdigit()\<close> on a \<^verbatim>\<open>text\<close> that is \<^verbatim>\<open>None\<close> raises \<^verbatim>\<open>AttributeError\<close>.
\<close>

definition port_of :: "element option \<Rightarrow> int \<Rightarrow> py_error + int" where
  "port_of port_elem default_port =
     (case port_elem of
        None \<Rightarrow> Inr default_port
      | Some p \<Rightarrow>
          (case elem_text p of
             None \<Rightarrow> Inl AttributeError
           | Some t \<Rightarrow> (if isdigit t then py_int t else Inr default_port)))"

text \<open>\<^verbatim>\<open>rdm_group_path.replace('\\', '/')\<close>\<close>

definition replace_backslash :: "string \<Rightarrow> string" where
  "replace_backslash s = map (\<lambda>c. if c = CHR 0x5C then CHR ''/'' else c) s"

subsection \<open>The connection object built for one element\<close>

text \<open>
  The dict \<^verbatim>\<open>guac_connection\<close>, one field per key. \<open>guac_name\<close> is a string or
  \<^verbatim>\<open>None\<close> (the text of a \<^verbatim>\<open>Name\<close> element); \<open>guac_group = None\<close> means that the dict
  has no \<^verbatim>\<open>"group"\<close> key; \<open>guac_parameters\<close> is the nested dict in insertion order.
\<close>

record guac_connection =
  guac_name :: "string option"
  guac_protocol :: string
  guac_parameters :: "(string \<times> pyval) list"
  guac_group :: "string option"

text \<open>
  The last step of each branch: \<^verbatim>\<open>if rdm_group_path: guac_connection["group"] =
  'ROOT/' + rdm_group_path.replace('\\', '/')\<close>, where \<^verbatim>\<open>rdm_group_path\<close> is
  \<^verbatim>\<open>group_elem.text if group_elem is not None else ''\<close>.
\<close>

definition guac_group_path :: "element \<Rightarrow> string option" where
  "guac_group_path conn_element =
     (let rdm_group_path = text_or_empty (elem_find ''Group'' conn_element)
      in if truthy rdm_group_path then Some (''ROOT/'' @ replace_backslash (the rdm_group_path))
         else None)"

definition fallback_name :: "string \<Rightarrow> element \<Rightarrow> string option \<Rightarrow> int \<Rightarrow> string option" where
  "fallback_name prefix conn_element host port =
     (case elem_find ''Name'' conn_element of
        Some name_elem \<Rightarrow> elem_text name_elem
      | None \<Rightarrow> Some (prefix @ ''_'' @ py_str host @ '':'' @ str_int port))"

definition convert_ssh :: "element \<Rightarrow> element \<Rightarrow> py_error + guac_connection" where
  "convert_ssh conn_element terminal =
     (let host = text_or_empty (elem_find ''Host'' terminal) in
      case port_of (elem_find ''HostPort'' terminal) 22 of
        Inl err \<Rightarrow> Inl err
      | Inr port \<Rightarrow>
          (let username = text_or_empty (elem_find ''Username'' terminal);
               password = text_or_empty (elem_find ''SafePassword'' terminal);
               command = text_or_empty (elem_find ''RemoteCommand'' terminal);
               name = fallback_name ''SSH'' conn_element host port
           in Inr \<lparr>guac_name = name, guac_protocol = ''ssh'',
                    guac_parameters =
                      [(''hostname'', to_pyval host),
                       (''port'', PyInt port),
                       (''username'', to_pyval username),
                       (''remote-app'', PyStr (if truthy command then the command else [])),
                       (''command'', PyStr (if truthy command then the command else []))],
                    guac_group = guac_group_path conn_element\<rparr>))"

definition convert_rdp :: "element \<Rightarrow> element \<Rightarrow> py_error + guac_connection" where
  "convert_rdp conn_element rdp_section =
     (let host_elem = elem_or (elem_find ''Host'' rdp_section) (elem_find ''Url'' conn_element);
          screen_mode = text_or_empty (elem_find ''ScreenSizingMode'' rdp_section);
          host = text_or_empty host_elem in
      case port_of (elem_find ''Port'' rdp_section) 3389 of
        Inl err \<Rightarrow> Inl err
      | Inr port \<Rightarrow>
          (let username = text_or_empty (elem_find ''UserName'' rdp_section);
               password = text_or_empty (elem_find ''SafePassword'' rdp_section);
               domain = text_or_empty (elem_find ''Domain'' rdp_section);
               name = fallback_name ''RDP'' conn_element host port;
               guac_params0 =
                 [(''hostname'', to_pyval host), (''port'', PyInt port), (''username'', to_pyval username)];
               guac_params1 =
                 (if truthy domain then AList.update ''domain'' (PyStr (the domain)) guac_params0
                  else guac_params0);
               guac_params =
                 (if screen_mode = Some ''FitToWindow''
                  then AList.update ''resize-method'' (PyStr ''scale'') guac_params1
                  else if screen_mode = Some ''FullScreen''
                  then AList.update ''resize-method'' (PyStr ''none'') guac_params1
                  else guac_params1)
           in Inr \<lparr>guac_name = name, guac_protocol = ''rdp'', guac_parameters = guac_params,
                    guac_group = guac_group_path conn_element\<rparr>))"

definition convert_vnc :: "element \<Rightarrow> element \<Rightarrow> py_error + guac_connection" where
  "convert_vnc conn_element vnc_section =
     (let host = text_or_empty (elem_find ''Host'' vnc_section) in
      case port_of (elem_find ''Port'' vnc_section) 5900 of
        Inl err \<Rightarrow> Inl err
      | Inr port \<Rightarrow>
          (let password = text_or_empty (elem_find ''MsSafePassword'' vnc_section);
               username = text_or_empty (elem_find ''MsUser'' vnc_section);
               name = fallback_name ''VNC'' conn_element host port;
               guac_params0 = [(''hostname'', to_pyval host), (''port'', PyInt port)];
               guac_params =
                 (if truthy username then AList.update ''username'' (PyStr (the username)) guac_params0
                  else guac_params0)
           in Inr \<lparr>guac_name = name, guac_protocol = ''vnc'', guac_parameters = guac_params,
                    guac_group = guac_group_path conn_element\<rparr>))"

text \<open>
  The \<^verbatim>\<open>if\<close>/\<^verbatim>\<open>elif\<close>/\<^verbatim>\<open>else\<close> chain of one loop iteration, up to the name
  uniqueness check. \<open>Skipped\<close>: the element has no \<^verbatim>\<open>ConnectionType\<close> child, or the
  \<^verbatim>\<open>else: continue\<close> branch was taken. \<open>Assigned g p\<close>: a branch assigned
  \<^verbatim>\<open>guac_connection = g\<close> and \<^verbatim>\<open>protocol = p\<close>. \<open>Unassigned\<close>: the type is one of
  the handled ones but its section element is missing, so the branch assigns nothing
  and control still reaches the name uniqueness check.
\<close>

datatype branch = Skipped | Unassigned | Assigned guac_connection string

definition with_label :: "string \<Rightarrow> py_error + guac_connection \<Rightarrow> py_error + branch" where
  "with_label p r = (case r of Inl err \<Rightarrow> Inl err | Inr g \<Rightarrow> Inr (Assigned g p))"

definition convert_branch :: "element \<Rightarrow> py_error + branch" where
  "convert_branch conn_element =
     (case elem_find ''ConnectionType'' conn_element of
        None \<Rightarrow> Inr Skipped
      | Some conn_type_elem \<Rightarrow>
          (let conn_type = elem_text conn_type_elem in
           if conn_type = Some ''SSHShell'' then
             (case elem_find ''Terminal'' conn_element of
                None \<Rightarrow> Inr Unassigned
              | Some terminal \<Rightarrow> with_label ''SSH'' (convert_ssh conn_element terminal))
           else if conn_type = Some ''RDP'' \<or> conn_type = Some ''RDPConfigured'' then
             (case elem_find ''RDP'' conn_element of
                None \<Rightarrow> Inr Unassigned
              | Some rdp_section \<Rightarrow> with_label ''RDP'' (convert_rdp conn_element rdp_section))
           else if conn_type = Some ''VNC'' then
             (case elem_find ''VNC'' conn_element of
                None \<Rightarrow> Inr Unassigned
              | Some vnc_section \<Rightarrow> with_label ''VNC'' (convert_vnc conn_element vnc_section))
           else Inr Skipped))"

subsection \<open>The name uniqueness check\<close>

text \<open>
  The \<^verbatim>\<open>while unique_name in used_names\<close> loop. \<open>candidate_name\<close> is the body's
  \<^verbatim>\<open>unique_name = f"{original_name} ({protocol})"\<close> followed by
  \<^verbatim>\<open>if counter > 1: unique_name += f"_{counter}"\<close>. The loop terminates because
  \<^verbatim>\<open>used_names\<close> is finite and a candidate with counter \<open>k\<close> is longer than the
  number of digits of \<open>k\<close>: \<open>names_bound\<close> bounds the counters whose candidate can be
  in the set.
\<close>

definition name_len :: "string option \<Rightarrow> nat" where
  "name_len x = (case x of None \<Rightarrow> 0 | Some s \<Rightarrow> length s)"

definition candidate_name :: "string option \<Rightarrow> string \<Rightarrow> nat \<Rightarrow> string" where
  "candidate_name original_name protocol counter =
     (let unique_name = py_str original_name @ '' ('' @ protocol @ '')''
      in if counter > 1 then unique_name @ ''_'' @ str_nat counter else unique_name)"

definition names_bound :: "string option list \<Rightarrow> nat" where
  "names_bound used = 10 ^ sum_list (map name_len used) + 1"

lemma candidate_in_used_bound:
  assumes "Some (candidate_name original p k) \<in> set used"
  shows "k < names_bound used"
proof (cases "k > 1")
  case True
  have "length (str_nat k) \<le> name_len (Some (candidate_name original p k))"
    using True by (simp add: name_len_def candidate_name_def)
  also have "\<dots> \<le> sum_list (map name_len used)"
    using assms by (simp add: member_le_sum_list)
  finally have "(10::nat) ^ length (str_nat k) \<le> 10 ^ sum_list (map name_len used)"
    by (rule power_increasing) simp
  with str_nat_bound [of k] have "k < 10 ^ sum_list (map name_len used)"
    by (rule less_le_trans)
  then show ?thesis by (simp add: names_bound_def)
next
  case False
  have "(0::nat) < 10 ^ sum_list (map name_len used)" by simp
  with False show ?thesis unfolding names_bound_def by linarith
qed

function unique_name_loop ::
  "string option \<Rightarrow> string \<Rightarrow> string option list \<Rightarrow> string option \<Rightarrow> nat \<Rightarrow> string option" where
  "unique_name_loop original_name protocol used_names unique_name counter =
     (if unique_name \<in> set used_names
      then unique_name_loop original_name protocol used_names
             (Some (candidate_name original_name protocol counter)) (counter + 1)
      else unique_name)"
  by pat_completeness auto
termination
proof (relation "measure (\<lambda>(original, p, used, unique, counter).
          if unique \<in> set used then Suc (names_bound used - counter) else 0)")
  show "wf (measure (\<lambda>(original, p, used, unique, counter).
          if unique \<in> set used then Suc (names_bound used - counter) else 0))" by simp
next
  fix original_name :: "string option" and protocol :: string
    and used_names :: "string option list" and unique_name :: "string option" and counter :: nat
  assume "unique_name \<in> set used_names"
  then show "((original_name, protocol, used_names,
               Some (candidate_name original_name protocol counter), counter + 1),
              (original_name, protocol, used_names, unique_name, counter))
             \<in> measure (\<lambda>(original, p, used, unique, counter).
                  if unique \<in> set used then Suc (names_bound used - counter) else 0)"
    using candidate_in_used_bound [of original_name protocol counter used_names]
    by auto
qed

declare unique_name_loop.simps [simp del]

subsection \<open>The loop over the connection elements\<close>

text \<open>
  The dicts the loop creates are shared objects: \<^verbatim>\<open>connections\<close> holds references,
  and the variable \<^verbatim>\<open>guac_connection\<close> keeps its reference from one iteration to
  the next. \<open>heap\<close> is the store of the dicts created so far, a reference is an
  index into it; \<open>current\<close> is the pair of the variables \<^verbatim>\<open>guac_connection\<close> and
  \<^verbatim>\<open>protocol\<close>, \<open>None\<close> while they are unbound.
\<close>

record loop_state =
  heap :: "guac_connection list"
  connections :: "nat list"
  used_names :: "string option list"
  current :: "(nat \<times> string) option"

definition initial_state :: loop_state where
  "initial_state = \<lparr>heap = [], connections = [], used_names = [], current = None\<rparr>"

text \<open>A branch that built a dict: the new object is stored and both variables are bound.\<close>

definition assign :: "guac_connection \<Rightarrow> string \<Rightarrow> loop_state \<Rightarrow> loop_state" where
  "assign g p s = s\<lparr>heap := heap s @ [g], current := Some (length (heap s), p)\<rparr>"

text \<open>
  The statements after the \<^verbatim>\<open>if\<close>/\<^verbatim>\<open>elif\<close> chain: read
  \<^verbatim>\<open>guac_connection["name"]\<close> (\<^verbatim>\<open>UnboundLocalError\<close> when no branch has assigned the
  variable yet), run the loop, write the name into the dict the variable refers to,
  add it to \<^verbatim>\<open>used_names\<close> and append the reference to \<^verbatim>\<open>connections\<close>.
\<close>

definition name_uniqueness_check :: "loop_state \<Rightarrow> py_error + loop_state" where
  "name_uniqueness_check s =
     (case current s of
        None \<Rightarrow> Inl UnboundLocalError
      | Some (ref, p) \<Rightarrow>
          (let original_name = guac_name (heap s ! ref);
               unique_name = unique_name_loop original_name p (used_names s) original_name 1
           in Inr (s\<lparr>heap := (heap s)[ref := (heap s ! ref)\<lparr>guac_name := unique_name\<rparr>],
                      used_names := List.insert unique_name (used_names s),
                      connections := connections s @ [ref]\<rparr>)))"

definition convert_element :: "element \<Rightarrow> loop_state \<Rightarrow> py_error + loop_state" where
  "convert_element conn_element s =
     (case convert_branch conn_element of
        Inl err \<Rightarrow> Inl err
      | Inr Skipped \<Rightarrow> Inr s
      | Inr Unassigned \<Rightarrow> name_uniqueness_check s
      | Inr (Assigned g p) \<Rightarrow> name_uniqueness_check (assign g p s))"

fun convert_loop :: "element list \<Rightarrow> loop_state \<Rightarrow> py_error + loop_state" where
  "convert_loop [] s = Inr s"
| "convert_loop (conn_element # rest) s =
     (case convert_element conn_element s of
        Inl err \<Rightarrow> Inl err
      | Inr s' \<Rightarrow> convert_loop rest s')"

subsection \<open>convert\_rdm\_to\_guac\_json and the command line\<close>

text \<open>
  What the function returns: a message, or \<^verbatim>\<open>json.dumps(connections, indent=4)\<close>,
  kept as the list it serialises (the dicts the references of \<^verbatim>\<open>connections\<close>
  point to when the loop has ended).
\<close>

datatype result = Text string | JsonDump "guac_connection list"

definition convert_root :: "element \<Rightarrow> py_error + result" where
  "convert_root root =
     (case convert_loop (findall_descendants ''Connection'' root) initial_state of
        Inl err \<Rightarrow> Inl err
      | Inr s \<Rightarrow>
          Inr (if connections s \<noteq> []
               then JsonDump (map (\<lambda>ref. heap s ! ref) (connections s))
               else Text ''No supported connections (SSHShell, RDP, RDPConfigured, VNC) found in the provided XML.''))"

text \<open>
  What the path names: nothing (\<^verbatim>\<open>os.path.exists\<close> is false), a file on which
  \<^verbatim>\<open>ET.parse\<close> raises \<^verbatim>\<open>ParseError\<close> or another exception (with the exception's
  text), or a document with its root element.
\<close>

datatype path_state = Absent | Malformed string | Unreadable string | Document element

definition convert_rdm_to_guac_json :: "(string \<Rightarrow> path_state) \<Rightarrow> string \<Rightarrow> py_error + result" where
  "convert_rdm_to_guac_json fs xml_file_path =
     (case fs xml_file_path of
        Absent \<Rightarrow> Inr (Text (''Error: File not found: '' @ xml_file_path))
      | Malformed e \<Rightarrow> Inr (Text (''Error parsing XML file: '' @ e))
      | Unreadable e \<Rightarrow> Inr (Text (''Error reading file: '' @ e))
      | Document root \<Rightarrow> convert_root root)"

text \<open>
  The \<^verbatim>\<open>__main__\<close> block on \<^verbatim>\<open>sys.argv\<close>: what is printed to standard output and
  the exit status. An exception that leaves \<^verbatim>\<open>convert_rdm_to_guac_json\<close> is not
  caught: nothing is printed to standard output and the interpreter exits with 1.
\<close>

definition rdm_main :: "(string \<Rightarrow> path_state) \<Rightarrow> string list \<Rightarrow> result list \<times> nat" where
  "rdm_main fs argv =
     (if length argv \<noteq> 2
      then ([Text ''Usage: python rdm_to_guac_json.py <path_to_rdm_xml_file>''], 1)
      else (case convert_rdm_to_guac_json fs (argv ! 1) of
              Inl err \<Rightarrow> ([], 1)
            | Inr result_json \<Rightarrow> ([result_json], 0)))"

section \<open>Auxiliary notions for the properties\<close>

subsection \<open>For the database exporter\<close>

text \<open>
  \<open>new_connection\<close> and \<open>add_parameter\<close> name the two halves of one iteration,
  \<open>same_header\<close> compares the three scalar slots of two records, \<open>pmap\<close> reads the
  parameter dict stored under a connection id, and \<open>parameter_rows\<close> selects the rows
  of the query result that carry parameter \<open>k\<close> of connection \<open>c\<close>.
\<close>

definition new_connection :: "row \<Rightarrow> connection" where
  "new_connection r = \<lparr>conn_name = col_connection_name r, conn_protocol = col_protocol r,
      conn_group = col_group_path r, conn_parameters = []\<rparr>"

definition add_parameter :: "row \<Rightarrow> connection \<Rightarrow> connection" where
  "add_parameter r c = (case col_parameter_name r of None \<Rightarrow> c
     | Some k \<Rightarrow> c\<lparr>conn_parameters := AList.update k (col_parameter_value r) (conn_parameters c)\<rparr>)"

definition same_header :: "connection \<Rightarrow> connection \<Rightarrow> bool" where
  "same_header x y \<longleftrightarrow>
     conn_name x = conn_name y \<and> conn_protocol x = conn_protocol y \<and> conn_group x = conn_group y"

definition pmap :: "(int \<times> connection) list \<Rightarrow> int \<Rightarrow> string \<Rightarrow> string option option" where
  "pmap m c = (case map_of m c of None \<Rightarrow> Map.empty | Some x \<Rightarrow> map_of (conn_parameters x))"

definition parameter_rows :: "row list \<Rightarrow> int \<Rightarrow> string \<Rightarrow> row list" where
  "parameter_rows rows c k =
     filter (\<lambda>r. col_connection_id r = c \<and> col_parameter_name r = Some k) rows"

subsection \<open>For the document converter\<close>

text \<open>
  \<open>conn_type_of\<close> is the discriminant the loop reads (\<^verbatim>\<open>conn_type_elem.text\<close>, or
  \<open>None\<close> without a \<^verbatim>\<open>ConnectionType\<close> child); \<open>recognized\<close> says that it is one of
  the four values the \<^verbatim>\<open>if\<close>/\<^verbatim>\<open>elif\<close> chain tests for. \<open>section_of\<close> is the
  type-specific section element the branch looks up, \<open>port_elem_of\<close> the port
  sub-element of that section, \<open>default_port\<close> and \<open>label_of\<close> the default port and the
  value of the variable \<^verbatim>\<open>protocol\<close> of the branch, \<open>declared_name\<close> the text of the
  \<^verbatim>\<open>Name\<close> child.
\<close>

definition conn_type_of :: "element \<Rightarrow> string option" where
  "conn_type_of e = (case elem_find ''ConnectionType'' e of None \<Rightarrow> None | Some t \<Rightarrow> elem_text t)"

definition recognized :: "element \<Rightarrow> bool" where
  "recognized e \<longleftrightarrow>
     conn_type_of e = Some ''SSHShell'' \<or> conn_type_of e = Some ''RDP'' \<or>
     conn_type_of e = Some ''RDPConfigured'' \<or> conn_type_of e = Some ''VNC''"

definition section_of :: "element \<Rightarrow> element option" where
  "section_of e =
     (if conn_type_of e = Some ''SSHShell'' then elem_find ''Terminal'' e
      else if conn_type_of e = Some ''RDP'' \<or> conn_type_of e = Some ''RDPConfigured''
      then elem_find ''RDP'' e
      else if conn_type_of e = Some ''VNC'' then elem_find ''VNC'' e
      else None)"

definition port_elem_of :: "element \<Rightarrow> element option" where
  "port_elem_of e =
     (case section_of e of
        None \<Rightarrow> None
      | Some sec \<Rightarrow>
          (if conn_type_of e = Some ''SSHShell'' then elem_find ''HostPort'' sec
           else elem_find ''Port'' sec))"

definition default_port :: "element \<Rightarrow> int" where
  "default_port e =
     (if conn_type_of e = Some ''SSHShell'' then 22
      else if conn_type_of e = Some ''VNC'' then 5900 else 3389)"

definition label_of :: "element \<Rightarrow> string" where
  "label_of e =
     (if conn_type_of e = Some ''SSHShell'' then ''SSH''
      else if conn_type_of e = Some ''VNC'' then ''VNC'' else ''RDP'')"

definition declared_name :: "element \<Rightarrow> string option" where
  "declared_name e = (case elem_find ''Name'' e of None \<Rightarrow> None | Some n \<Rightarrow> elem_text n)"

text \<open>
  A port element is readable when \<^verbatim>\<open>port_of\<close> raises nothing on it: it is absent,
  or it has text that either fails \<^verbatim>\<open>isdigit\<close> (the default applies) or consists of
  at most \<^verbatim>\<open>sys.int_max_str_digits\<close> decimal digits. An element is convertible when its type is recognized, its section
  is present and its port element is readable.
\<close>

definition port_readable :: "element option \<Rightarrow> bool" where
  "port_readable port_elem =
     (case port_elem of
        None \<Rightarrow> True
      | Some p \<Rightarrow>
          (case elem_text p of
             None \<Rightarrow> False
           | Some t \<Rightarrow>
               \<not> isdigit t \<or> (list_all is_decimal t \<and> length t \<le> int_max_str_digits)))"

definition convertible :: "element \<Rightarrow> bool" where
  "convertible e \<longleftrightarrow> recognized e \<and> section_of e \<noteq> None \<and> port_readable (port_elem_of e)"

text \<open>
  What is read off a returned value: the number of records and their names.
\<close>

definition record_count :: "result \<Rightarrow> nat" where
  "record_count r = (case r of Text m \<Rightarrow> 0 | JsonDump cs \<Rightarrow> length cs)"

definition record_names :: "py_error + result \<Rightarrow> string option list" where
  "record_names r = (case r of Inr (JsonDump cs) \<Rightarrow> map guac_name cs | _ \<Rightarrow> [])"

text \<open>
  \<open>built_from e g\<close> collects what a branch guarantees of the dict \<open>g\<close> it builds for
  the element \<open>e\<close>; \<open>branch_spec e\<close> describes the outcome of the
  \<^verbatim>\<open>if\<close>/\<^verbatim>\<open>elif\<close> chain on a recognized element in terms of the notions above.
\<close>

definition built_from :: "element \<Rightarrow> guac_connection \<Rightarrow> bool" where
  "built_from e g \<longleftrightarrow>
     guac_group g = guac_group_path e \<and>
     (elem_find ''Name'' e \<noteq> None \<longrightarrow> guac_name g = declared_name e) \<and>
     ''password'' \<notin> fst ` set (guac_parameters g)"

definition branch_spec :: "element \<Rightarrow> bool" where
  "branch_spec e \<longleftrightarrow>
     (\<forall>g p. convert_branch e = Inr (Assigned g p) \<longrightarrow>
        built_from e g \<and> p = label_of e \<and> convertible e) \<and>
     (convertible e \<longrightarrow> (\<exists>g. convert_branch e = Inr (Assigned g (label_of e)))) \<and>
     (convert_branch e = Inr Unassigned \<longleftrightarrow> section_of e = None) \<and>
     (section_of e \<noteq> None \<longrightarrow> \<not> port_readable (port_elem_of e) \<longrightarrow>
        (\<exists>err. convert_branch e = Inl err))"

text \<open>
  The password elements, and a document with their text erased.
\<close>

definition password_tag :: "string \<Rightarrow> bool" where
  "password_tag t \<longleftrightarrow> t = ''SafePassword'' \<or> t = ''MsSafePassword''"

fun scrub_passwords :: "element \<Rightarrow> element" where
  "scrub_passwords (Element t x cs) =
     Element t (if password_tag t then None else x) (map scrub_passwords cs)"

definition no_password_elem :: "element option \<Rightarrow> bool" where
  "no_password_elem x = (case x of None \<Rightarrow> True | Some c \<Rightarrow> \<not> password_tag (elem_tag c))"

text \<open>
  Invariants of the loop: \<open>state_ok\<close> (references point into the store, nothing is
  appended while the variable is unbound, no stored dict has a \<^verbatim>\<open>"password"\<close>
  parameter) and \<open>groups_ok ps s\<close> (after the recognized elements \<open>ps\<close>, the \<open>i\<close>-th
  reference of \<^verbatim>\<open>connections\<close> points to a dict with the group of \<open>ps ! i\<close>, when that
  element has its section).
\<close>

definition no_password_key :: "guac_connection \<Rightarrow> bool" where
  "no_password_key g \<longleftrightarrow> ''password'' \<notin> fst ` set (guac_parameters g)"

definition state_ok :: "loop_state \<Rightarrow> bool" where
  "state_ok s \<longleftrightarrow>
     list_all (\<lambda>ref. ref < length (heap s)) (connections s) \<and>
     (case current s of None \<Rightarrow> connections s = [] | Some (ref, p) \<Rightarrow> ref < length (heap s)) \<and>
     list_all no_password_key (heap s)"

definition groups_ok :: "element list \<Rightarrow> loop_state \<Rightarrow> bool" where
  "groups_ok ps s \<longleftrightarrow>
     length (connections s) = length ps \<and>
     (\<forall>i < length ps. section_of (ps ! i) \<noteq> None \<longrightarrow>
        guac_group (heap s ! (connections s ! i)) = guac_group_path (ps ! i))"

text \<open>
  Sample documents, as \<^verbatim>\<open>ET.parse\<close> returns them: a root with \<^verbatim>\<open>Connection\<close>
  children, each with a \<^verbatim>\<open>ConnectionType\<close>, a \<^verbatim>\<open>Name\<close> and further children.
  \<open>sample_path\<close> is the group path of the letters A, B, C separated by backslashes.
\<close>

definition sample_document :: "element list \<Rightarrow> element" where
  "sample_document conns = Element ''ArrayOfConnection'' None conns"

definition sample_connection :: "string \<Rightarrow> string \<Rightarrow> element list \<Rightarrow> element" where
  "sample_connection ty nm rest =
     Element ''Connection'' None
       ([Element ''ConnectionType'' (Some ty) [], Element ''Name'' (Some nm) []] @ rest)"

definition sample_group :: "string \<Rightarrow> element" where
  "sample_group g = Element ''Group'' (Some g) []"

definition sample_path :: string where
  "sample_path = [CHR ''A'', CHR 0x5C, CHR ''B'', CHR 0x5C, CHR ''C'']"

definition sample_terminal :: "string \<Rightarrow> element" where
  "sample_terminal pw =
     Element ''Terminal'' None
       [Element ''Host'' (Some ''10.0.0.1'') [],
        Element ''HostPort'' (Some ''2222'') [],
        Element ''Username'' (Some ''root'') [],
        Element ''SafePassword'' (Some pw) []]"

definition sample_rdp_section :: element where
  "sample_rdp_section =
     Element ''RDP'' None
       [Element ''UserName'' (Some ''admin'') [],
        Element ''Domain'' (Some ''LAB'') [],
        Element ''ScreenSizingMode'' (Some ''FitToWindow'') []]"

definition sample_vnc_section :: "string option \<Rightarrow> element" where
  "sample_vnc_section port_text =
     Element ''VNC'' None [Element ''Host'' (Some ''10.0.0.3'') [], Element ''Port'' port_text []]"

section \<open>Properties of the database exporter\<close>

subsection \<open>One row, then all rows\<close>

lemmas col_defs = col_connection_id_def col_connection_name_def col_group_path_def
  col_protocol_def col_parameter_name_def col_parameter_value_def

lemma map_fst_map_entry: "map fst (AList.map_entry k f xs) = map fst xs"
  by (induction xs) auto

lemma map_of_snoc:
  "map_of (xs @ [(k, v)]) c = (case map_of xs c of None \<Rightarrow> (if c = k then Some v else None) | Some w \<Rightarrow> Some w)"
  by (induction xs) auto

lemma build_row_keys:
  "map fst (build_row m r) =
     (if col_connection_id r \<in> set (map fst m) then map fst m else map fst m @ [col_connection_id r])"
  by (cases r) (auto simp: col_defs Let_def map_fst_map_entry map_of_eq_None_iff split: option.splits)

lemma build_row_other:
  "col_connection_id r \<noteq> c \<Longrightarrow> map_of (build_row m r) c = map_of m c"
  by (cases r) (auto simp: col_defs Let_def map_of_map_entry map_of_snoc simp del: map_of_append split: option.splits)

lemma build_row_same:
  "map_of (build_row m r) (col_connection_id r) =
     Some (add_parameter r (case map_of m (col_connection_id r) of None \<Rightarrow> new_connection r | Some c \<Rightarrow> c))"
  by (cases r) (auto simp: col_defs Let_def map_of_map_entry map_of_snoc add_parameter_def new_connection_def simp del: map_of_append split: option.splits)

declare build_row.simps [simp del]


lemma foldl_distinct:
  "distinct (map fst m) \<Longrightarrow> distinct (map fst (foldl build_row m rows))"
  by (induction rows arbitrary: m) (auto simp: build_row_keys)

lemma same_header_add_parameter: "same_header (add_parameter r x) x"
  by (simp add: same_header_def add_parameter_def split: option.splits)

lemma build_row_keeps_header:
  assumes "map_of m c = Some x"
  shows "\<exists>y. map_of (build_row m r) c = Some y \<and> same_header y x"
proof (cases "col_connection_id r = c")
  case True
  with assms build_row_same [of m r] show ?thesis
    by (simp add: same_header_add_parameter)
next
  case False
  with assms show ?thesis
    by (simp add: build_row_other same_header_def)
qed

lemma foldl_keeps_header:
  "map_of m c = Some x \<Longrightarrow> \<exists>y. map_of (foldl build_row m rows) c = Some y \<and> same_header y x"
proof (induction rows arbitrary: m x)
  case Nil
  then show ?case by (simp add: same_header_def)
next
  case (Cons r rows)
  from build_row_keeps_header [OF Cons.prems, of r]
  obtain y where y: "map_of (build_row m r) c = Some y" "same_header y x" by blast
  from Cons.IH [OF y(1)] y(2) show ?case
    by (auto simp: same_header_def)
qed

lemma foldl_first_row:
  "map_of m c = None \<Longrightarrow> find (\<lambda>r. col_connection_id r = c) rows = Some row \<Longrightarrow>
   \<exists>y. map_of (foldl build_row m rows) c = Some y \<and> same_header y (new_connection row)"
proof (induction rows arbitrary: m)
  case Nil
  then show ?case by simp
next
  case (Cons r rows)
  show ?case
  proof (cases "col_connection_id r = c")
    case True
    with Cons.prems have row: "row = r" by simp
    from True Cons.prems(1) build_row_same [of m r]
    have "map_of (build_row m r) c = Some (add_parameter r (new_connection r))" by simp
    from foldl_keeps_header [OF this, of rows] row show ?thesis
      using same_header_add_parameter [of r "new_connection r"]
      by (auto simp: same_header_def)
  next
    case False
    with Cons.prems have "map_of (build_row m r) c = None"
      and "find (\<lambda>r. col_connection_id r = c) rows = Some row"
      by (simp_all add: build_row_other)
    from Cons.IH [OF this] show ?thesis by simp
  qed
qed

lemma pmap_build_row:
  "pmap (build_row m r) c k =
     (if col_connection_id r = c \<and> col_parameter_name r = Some k
      then Some (col_parameter_value r) else pmap m c k)"
proof (cases "col_connection_id r = c")
  case True
  then show ?thesis
    using build_row_same [of m r]
    by (auto simp: pmap_def add_parameter_def new_connection_def update_conv' split: option.splits)
next
  case False
  then show ?thesis by (simp add: pmap_def build_row_other)
qed

lemma pmap_foldl:
  "pmap (foldl build_row m rows) c k =
     (if parameter_rows rows c k = [] then pmap m c k
      else Some (col_parameter_value (last (parameter_rows rows c k))))"
  by (induction rows rule: rev_induct) (auto simp: pmap_build_row parameter_rows_def)

lemma build_connections_map_distinct: "distinct (map fst (build_connections_map rows))"
  by (simp add: build_connections_map_def foldl_distinct)


lemma build_connections_map_lookup:
  "(c, x) \<in> set (build_connections_map rows) \<longleftrightarrow> map_of (build_connections_map rows) c = Some x"
  using build_connections_map_distinct [of rows] by (simp add: map_of_eq_Some_iff)

lemma parameters_of_entry:
  assumes "(c, x) \<in> set (build_connections_map rows)"
  shows "map_of (conn_parameters x) k =
           (if parameter_rows rows c k = [] then None
            else Some (col_parameter_value (last (parameter_rows rows c k))))"
proof -
  from assms have "map_of (build_connections_map rows) c = Some x"
    by (simp add: build_connections_map_lookup)
  then have "map_of (conn_parameters x) k = pmap (foldl build_row [] rows) c k"
    by (simp add: pmap_def build_connections_map_def)
  also have "\<dots> = (if parameter_rows rows c k = [] then pmap [] c k
                    else Some (col_parameter_value (last (parameter_rows rows c k))))"
    by (rule pmap_foldl)
  also have "pmap [] c k = None" by (simp add: pmap_def)
  finally show ?thesis .
qed

subsection \<open>The claims about build\_connection\_dict\<close>

text \<open>
  Claim C4, as amended. The first row of a connection id creates that connection's
  record: its name is the second column of that row, its protocol slot is the
  \<^emph>\<open>fourth\<close> column (\<^verbatim>\<open>c.protocol\<close>, which the source unpacks into the variable
  \<^verbatim>\<open>group_name\<close>), and its group slot is the third column (the group path
  \<^verbatim>\<open>'ROOT/' || COALESCE(full_path, '')\<close>, unpacked into the variable
  \<^verbatim>\<open>parent_id\<close>). The record is one of the output list.
\<close>

theorem first_row_creates_record:
  assumes "find (\<lambda>r. col_connection_id r = c) rows = Some row"
  shows "\<exists>x. map_of (build_connections_map rows) c = Some x \<and>
             x \<in> set (build_connection_dict rows) \<and>
             conn_name x = col_connection_name row \<and>
             conn_protocol x = col_protocol row \<and>
             conn_group x = col_group_path row"
proof -
  from foldl_first_row [of "[]" c rows row] assms
  obtain x where x: "map_of (build_connections_map rows) c = Some x"
    and h: "same_header x (new_connection row)"
    by (auto simp: build_connections_map_def)
  from x have "(c, x) \<in> set (build_connections_map rows)" by (rule map_of_SomeD)
  then have "x \<in> set (build_connection_dict rows)"
    by (force simp: build_connection_dict_def)
  with x h show ?thesis by (simp add: same_header_def new_connection_def)
qed

theorem first_row_creates_record_witness:
  "find (\<lambda>r. col_connection_id r = 1)
     [(1, ''srv'', ''ROOT/lab'', ''rdp'', Some ''port'', Some ''3389'')] =
     Some (1, ''srv'', ''ROOT/lab'', ''rdp'', Some ''port'', Some ''3389'') \<and>
   (\<exists>x. map_of (build_connections_map
                  [(1, ''srv'', ''ROOT/lab'', ''rdp'', Some ''port'', Some ''3389'')]) 1 = Some x \<and>
        conn_name x = ''srv'' \<and> conn_protocol x = ''rdp'' \<and> conn_group x = ''ROOT/lab'')"
  using first_row_creates_record
    [of 1 "[(1, ''srv'', ''ROOT/lab'', ''rdp'', Some ''port'', Some ''3389'')]"
        "(1, ''srv'', ''ROOT/lab'', ''rdp'', Some ''port'', Some ''3389'')"]
  by (auto simp: col_defs)

text \<open>
  Claim C4 as stated fails: for the single row
  \<open>(1, srv, ROOT/lab, rdp, NULL, NULL)\<close> the protocol slot of the record is
  \<open>rdp\<close>, not the group path \<open>ROOT/lab\<close> of the third column.
\<close>

theorem protocol_slot_is_not_group_path:
  "map conn_protocol (build_connection_dict [(1, ''srv'', ''ROOT/lab'', ''rdp'', None, None)]) \<noteq>
   [col_group_path (1, ''srv'', ''ROOT/lab'', ''rdp'', None, None)]"
  by (simp add: build_connection_dict_def build_connections_map_def build_row.simps col_defs)

text \<open>
  Claim C7. A row whose parameter-name column is null adds no entry: every key of a
  record's parameter map is the parameter name of a row of that connection, and a
  connection all of whose rows have a null parameter name gets the empty map.
\<close>

theorem null_parameter_name_adds_no_entry:
  assumes "(c, x) \<in> set (build_connections_map rows)"
  shows "(\<forall>k. k \<in> fst ` set (conn_parameters x) \<longrightarrow>
               (\<exists>r \<in> set rows. col_connection_id r = c \<and> col_parameter_name r = Some k)) \<and>
         ((\<forall>r \<in> set rows. col_connection_id r = c \<longrightarrow> col_parameter_name r = None) \<longrightarrow>
            conn_parameters x = [])"
proof -
  have keys: "\<exists>r \<in> set rows. col_connection_id r = c \<and> col_parameter_name r = Some k"
    if "k \<in> fst ` set (conn_parameters x)" for k
  proof -
    from that have "map_of (conn_parameters x) k \<noteq> None"
      by (simp add: map_of_eq_None_iff)
    with parameters_of_entry [OF assms, of k] have "parameter_rows rows c k \<noteq> []"
      by (simp split: if_splits)
    then have "hd (parameter_rows rows c k) \<in> set (parameter_rows rows c k)"
      by (rule hd_in_set)
    then have "hd (parameter_rows rows c k) \<in> set rows \<and>
               col_connection_id (hd (parameter_rows rows c k)) = c \<and>
               col_parameter_name (hd (parameter_rows rows c k)) = Some k"
      unfolding parameter_rows_def by simp
    then show ?thesis by blast
  qed
  have "conn_parameters x = []"
    if "\<forall>r \<in> set rows. col_connection_id r = c \<longrightarrow> col_parameter_name r = None"
  proof (cases "conn_parameters x")
    case Nil
    then show ?thesis .
  next
    case (Cons p ps)
    then have "fst p \<in> fst ` set (conn_parameters x)" by simp
    from keys [OF this] that show ?thesis by auto
  qed
  with keys show ?thesis by blast
qed

theorem null_parameter_name_adds_no_entry_witness:
  "build_connections_map [(7, ''lonely'', ''ROOT/'', ''vnc'', None, None)] =
     [(7, \<lparr>conn_name = ''lonely'', conn_protocol = ''vnc'', conn_group = ''ROOT/'',
            conn_parameters = []\<rparr>)] \<and>
   conn_parameters \<lparr>conn_name = ''lonely'', conn_protocol = ''vnc'', conn_group = ''ROOT/'',
            conn_parameters = []\<rparr> = []"
  using null_parameter_name_adds_no_entry
    [of 7 "\<lparr>conn_name = ''lonely'', conn_protocol = ''vnc'', conn_group = ''ROOT/'',
              conn_parameters = []\<rparr>"
        "[(7, ''lonely'', ''ROOT/'', ''vnc'', None, None)]"]
  by (simp add: build_connections_map_def build_row.simps)



subsection \<open>The database session on the exit paths of main\<close>

text \<open>
  Once the session is open and the query has returned its rows, both remaining
  paths (the export is written, or writing raises \<^verbatim>\<open>IOError\<close>) run the
  \<^verbatim>\<open>finally\<close> clause that closes the session.
\<close>

lemma session_closed_after_fetch:
  assumes "list_all (\<lambda>v. v \<noteq> []) [DB_HOST cfg, DB_PORT cfg, DB_NAME cfg, DB_USER cfg, DB_PASS cfg]"
    and "connect_result env = Inr u" and "query_result env = Inr rows"
  shows "CloseConnection \<in> set (fst (main cfg env))"
  using assms
  by (cases "write_result env")
     (simp_all add: main_def fetch_connections_and_params_def Let_def)

text \<open>
  Claim C5 at the failing run: the shipped configuration, a session that opens, and a
  query that raises \<^verbatim>\<open>psycopg2.Error\<close>. The session is opened, the cursor is closed,
  the process exits with status 1, and the session is never closed.
\<close>

theorem query_failure_leaves_session_open:
  "OpenConnection \<in> set (fst (main shipped_config
      \<lparr>connect_result = Inr (), query_result = Inl ''server closed the connection unexpectedly'',
       write_result = Inr ()\<rparr>)) \<and>
   CloseCursor \<in> set (fst (main shipped_config
      \<lparr>connect_result = Inr (), query_result = Inl ''server closed the connection unexpectedly'',
       write_result = Inr ()\<rparr>)) \<and>
   CloseConnection \<notin> set (fst (main shipped_config
      \<lparr>connect_result = Inr (), query_result = Inl ''server closed the connection unexpectedly'',
       write_result = Inr ()\<rparr>)) \<and>
   snd (main shipped_config
      \<lparr>connect_result = Inr (), query_result = Inl ''server closed the connection unexpectedly'',
       write_result = Inr ()\<rparr>) = 1"
  by (simp add: main_def shipped_config_def fetch_connections_and_params_def Let_def)

section \<open>Lemmas about the document converter\<close>

subsection \<open>The branch taken for an element, and the number of records\<close>

lemma with_label_not_skipped [simp]: "with_label p r \<noteq> Inr Skipped"
  by (simp add: with_label_def split: sum.splits)

lemma with_label_not_unassigned [simp]: "with_label p r \<noteq> Inr Unassigned"
  by (simp add: with_label_def split: sum.splits)

lemma convert_branch_unrecognized: "\<not> recognized e \<Longrightarrow> convert_branch e = Inr Skipped"
  unfolding recognized_def conn_type_of_def convert_branch_def Let_def
  by (cases "elem_find ''ConnectionType'' e") simp_all

lemma convert_branch_ssh:
  "conn_type_of e = Some ''SSHShell'' \<Longrightarrow>
   convert_branch e =
     (case elem_find ''Terminal'' e of
        None \<Rightarrow> Inr Unassigned
      | Some terminal \<Rightarrow> with_label ''SSH'' (convert_ssh e terminal))"
  unfolding conn_type_of_def convert_branch_def Let_def
  by (cases "elem_find ''ConnectionType'' e") simp_all

lemma convert_branch_rdp:
  "conn_type_of e = Some ''RDP'' \<or> conn_type_of e = Some ''RDPConfigured'' \<Longrightarrow>
   convert_branch e =
     (case elem_find ''RDP'' e of
        None \<Rightarrow> Inr Unassigned
      | Some rdp_section \<Rightarrow> with_label ''RDP'' (convert_rdp e rdp_section))"
  unfolding conn_type_of_def convert_branch_def Let_def
  by (cases "elem_find ''ConnectionType'' e") (simp, elim disjE, simp_all)

lemma convert_branch_vnc:
  "conn_type_of e = Some ''VNC'' \<Longrightarrow>
   convert_branch e =
     (case elem_find ''VNC'' e of
        None \<Rightarrow> Inr Unassigned
      | Some vnc_section \<Rightarrow> with_label ''VNC'' (convert_vnc e vnc_section))"
  unfolding conn_type_of_def convert_branch_def Let_def
  by (cases "elem_find ''ConnectionType'' e") simp_all

lemma convert_branch_recognized: "recognized e \<Longrightarrow> convert_branch e \<noteq> Inr Skipped"
  unfolding recognized_def
proof (elim disjE)
  assume "conn_type_of e = Some ''SSHShell''"
  then show ?thesis by (simp add: convert_branch_ssh split: option.splits)
next
  assume "conn_type_of e = Some ''RDP''"
  then show ?thesis by (simp add: convert_branch_rdp split: option.splits)
next
  assume "conn_type_of e = Some ''RDPConfigured''"
  then show ?thesis by (simp add: convert_branch_rdp split: option.splits)
next
  assume "conn_type_of e = Some ''VNC''"
  then show ?thesis by (simp add: convert_branch_vnc split: option.splits)
qed

lemma name_uniqueness_check_count:
  "name_uniqueness_check s = Inr s' \<Longrightarrow> length (connections s') = Suc (length (connections s))"
  by (auto simp: name_uniqueness_check_def Let_def split: option.splits)

lemma convert_element_count:
  assumes "convert_element e s = Inr s'"
  shows "length (connections s') = length (connections s) + (if recognized e then 1 else 0)"
proof (cases "recognized e")
  case False
  with assms show ?thesis
    by (simp add: convert_element_def convert_branch_unrecognized)
next
  case True
  then have ns: "convert_branch e \<noteq> Inr Skipped" by (rule convert_branch_recognized)
  show ?thesis
  proof (cases "convert_branch e")
    case (Inl err)
    with assms show ?thesis by (simp add: convert_element_def)
  next
    case (Inr b)
    show ?thesis
    proof (cases b)
      case Skipped
      with Inr ns show ?thesis by simp
    next
      case Unassigned
      with Inr assms have "name_uniqueness_check s = Inr s'" by (simp add: convert_element_def)
      from name_uniqueness_check_count [OF this] True show ?thesis by simp
    next
      case (Assigned g p)
      with Inr assms have "name_uniqueness_check (assign g p s) = Inr s'"
        by (simp add: convert_element_def)
      from name_uniqueness_check_count [OF this] True show ?thesis by (simp add: assign_def)
    qed
  qed
qed

lemma convert_loop_count:
  "convert_loop es s = Inr s' \<Longrightarrow>
   length (connections s') = length (connections s) + length (filter recognized es)"
proof (induction es arbitrary: s)
  case Nil
  then show ?case by simp
next
  case (Cons e es)
  from Cons.prems obtain s1 where s1: "convert_element e s = Inr s1"
    and rest: "convert_loop es s1 = Inr s'"
    by (cases "convert_element e s") simp_all
  from Cons.IH [OF rest] convert_element_count [OF s1] show ?case by simp
qed

lemma convert_root_count:
  assumes "convert_root root = Inr out"
  shows "record_count out = length (filter recognized (findall_descendants ''Connection'' root))"
proof (cases "convert_loop (findall_descendants ''Connection'' root) initial_state")
  case (Inl err)
  with assms show ?thesis by (simp add: convert_root_def)
next
  case (Inr s)
  from convert_loop_count [OF Inr]
  have n: "length (connections s) = length (filter recognized (findall_descendants ''Connection'' root))"
    by (simp add: initial_state_def)
  from assms Inr have "record_count out = length (connections s)"
    by (auto simp: convert_root_def record_count_def)
  with n show ?thesis by simp
qed

lemma unique_name_loop_fresh:
  "unique_name \<notin> set used \<Longrightarrow> unique_name_loop original p used unique_name counter = unique_name"
  by (subst unique_name_loop.simps) simp

lemma unique_name_loop_first_collision:
  "unique_name \<in> set used \<Longrightarrow> Some (candidate_name original p counter) \<notin> set used \<Longrightarrow>
   unique_name_loop original p used unique_name counter = Some (candidate_name original p counter)"
  by (subst unique_name_loop.simps) (simp add: unique_name_loop_fresh)

lemma convert_element_unrecognized: "\<not> recognized e \<Longrightarrow> convert_element e s = Inr s"
  by (simp add: convert_element_def convert_branch_unrecognized)

lemma convert_loop_filter: "convert_loop es s = convert_loop (filter recognized es) s"
  by (induction es arbitrary: s) (simp_all add: convert_element_unrecognized split: sum.splits)

lemma port_of_readable: "port_readable pe \<Longrightarrow> \<exists>v. port_of pe d = Inr v"
  by (auto simp: port_readable_def port_of_def py_int_def isdigit_def split: option.splits)

lemma port_of_unreadable: "\<not> port_readable pe \<Longrightarrow> \<exists>err. port_of pe d = Inl err"
  by (auto simp: port_readable_def port_of_def py_int_def split: option.splits)

lemma fallback_name_declared:
  "elem_find ''Name'' e \<noteq> None \<Longrightarrow> fallback_name prefix e host port = declared_name e"
  by (auto simp: fallback_name_def declared_name_def)

lemma convert_ssh_result:
  "convert_ssh e t =
     (case port_of (elem_find ''HostPort'' t) 22 of
        Inl err \<Rightarrow> Inl err
      | Inr port \<Rightarrow>
          Inr \<lparr>guac_name = fallback_name ''SSH'' e (text_or_empty (elem_find ''Host'' t)) port,
               guac_protocol = ''ssh'',
               guac_parameters =
                 [(''hostname'', to_pyval (text_or_empty (elem_find ''Host'' t))),
                  (''port'', PyInt port),
                  (''username'', to_pyval (text_or_empty (elem_find ''Username'' t))),
                  (''remote-app'', PyStr (if truthy (text_or_empty (elem_find ''RemoteCommand'' t))
                                          then the (text_or_empty (elem_find ''RemoteCommand'' t)) else [])),
                  (''command'', PyStr (if truthy (text_or_empty (elem_find ''RemoteCommand'' t))
                                       then the (text_or_empty (elem_find ''RemoteCommand'' t)) else []))],
               guac_group = guac_group_path e\<rparr>)"
  by (cases "port_of (elem_find ''HostPort'' t) 22") (simp_all add: convert_ssh_def Let_def)

lemma convert_rdp_result:
  "convert_rdp e r =
     (case port_of (elem_find ''Port'' r) 3389 of
        Inl err \<Rightarrow> Inl err
      | Inr port \<Rightarrow>
          Inr \<lparr>guac_name =
                 fallback_name ''RDP'' e
                   (text_or_empty (elem_or (elem_find ''Host'' r) (elem_find ''Url'' e))) port,
               guac_protocol = ''rdp'',
               guac_parameters =
                 (let guac_params0 =
                        [(''hostname'',
                          to_pyval (text_or_empty (elem_or (elem_find ''Host'' r) (elem_find ''Url'' e)))),
                         (''port'', PyInt port),
                         (''username'', to_pyval (text_or_empty (elem_find ''UserName'' r)))];
                      guac_params1 =
                        (if truthy (text_or_empty (elem_find ''Domain'' r))
                         then AList.update ''domain''
                                (PyStr (the (text_or_empty (elem_find ''Domain'' r)))) guac_params0
                         else guac_params0)
                  in if text_or_empty (elem_find ''ScreenSizingMode'' r) = Some ''FitToWindow''
                     then AList.update ''resize-method'' (PyStr ''scale'') guac_params1
                     else if text_or_empty (elem_find ''ScreenSizingMode'' r) = Some ''FullScreen''
                     then AList.update ''resize-method'' (PyStr ''none'') guac_params1
                     else guac_params1),
               guac_group = guac_group_path e\<rparr>)"
  by (cases "port_of (elem_find ''Port'' r) 3389") (simp_all add: convert_rdp_def Let_def)

lemma convert_vnc_result:
  "convert_vnc e v =
     (case port_of (elem_find ''Port'' v) 5900 of
        Inl err \<Rightarrow> Inl err
      | Inr port \<Rightarrow>
          Inr \<lparr>guac_name = fallback_name ''VNC'' e (text_or_empty (elem_find ''Host'' v)) port,
               guac_protocol = ''vnc'',
               guac_parameters =
                 (if truthy (text_or_empty (elem_find ''MsUser'' v))
                  then AList.update ''username'' (PyStr (the (text_or_empty (elem_find ''MsUser'' v))))
                         [(''hostname'', to_pyval (text_or_empty (elem_find ''Host'' v))),
                          (''port'', PyInt port)]
                  else [(''hostname'', to_pyval (text_or_empty (elem_find ''Host'' v))),
                        (''port'', PyInt port)]),
               guac_group = guac_group_path e\<rparr>)"
  by (cases "port_of (elem_find ''Port'' v) 5900") (simp_all add: convert_vnc_def Let_def)

lemma convert_ssh_built: "convert_ssh e t = Inr g \<Longrightarrow> built_from e g"
  by (cases "port_of (elem_find ''HostPort'' t) 22")
     (auto simp: convert_ssh_result built_from_def fallback_name_declared split: if_splits)

lemma convert_rdp_built: "convert_rdp e r = Inr g \<Longrightarrow> built_from e g"
  by (cases "port_of (elem_find ''Port'' r) 3389")
     (auto simp: convert_rdp_result built_from_def fallback_name_declared Let_def split: if_splits)

lemma convert_vnc_built: "convert_vnc e v = Inr g \<Longrightarrow> built_from e g"
  by (cases "port_of (elem_find ''Port'' v) 5900")
     (auto simp: convert_vnc_result built_from_def fallback_name_declared split: if_splits)

lemma with_label_Assigned: "with_label p r = Inr (Assigned g q) \<longleftrightarrow> r = Inr g \<and> q = p"
  by (cases r) (auto simp: with_label_def)

lemma with_label_Inl: "with_label p r = Inl err \<longleftrightarrow> r = Inl err"
  by (cases r) (auto simp: with_label_def)

lemma branch_shape:
  assumes br: "convert_branch e =
                 (case sec of None \<Rightarrow> Inr Unassigned | Some x \<Rightarrow> with_label l (conv x))"
    and rec: "recognized e" and sec: "section_of e = sec" and lab: "label_of e = l"
    and pe: "port_elem_of e = (case sec of None \<Rightarrow> None | Some x \<Rightarrow> pf x)"
    and built: "\<And>x g. conv x = Inr g \<Longrightarrow> built_from e g"
    and ok: "\<And>x v. port_of (pf x) d = Inr v \<Longrightarrow> \<exists>g. conv x = Inr g"
    and bad: "\<And>x err. port_of (pf x) d = Inl err \<Longrightarrow> conv x = Inl err"
  shows "branch_spec e"
proof (cases sec)
  case None
  with br sec pe rec show ?thesis
    by (simp add: branch_spec_def convertible_def)
next
  case (Some x)
  have readable: "port_readable (pf x) \<longleftrightarrow> (\<exists>g. conv x = Inr g)"
  proof
    assume "port_readable (pf x)"
    from port_of_readable [OF this, of d] ok show "\<exists>g. conv x = Inr g" by blast
  next
    assume "\<exists>g. conv x = Inr g"
    then obtain g where g: "conv x = Inr g" ..
    show "port_readable (pf x)"
    proof (rule ccontr)
      assume "\<not> port_readable (pf x)"
      from port_of_unreadable [OF this, of d] bad g show False by auto
    qed
  qed
  have unreadable: "\<exists>err. conv x = Inl err" if "\<not> port_readable (pf x)"
    using port_of_unreadable [OF that, of d] bad by blast
  from Some br have b: "convert_branch e = with_label l (conv x)" by simp
  from Some sec pe rec have c: "convertible e \<longleftrightarrow> port_readable (pf x)"
    and s: "section_of e \<noteq> None" and p: "port_elem_of e = pf x"
    by (simp_all add: convertible_def)
  show ?thesis
    unfolding branch_spec_def b c p lab
    using s readable unreadable built
    by (auto simp: with_label_Assigned with_label_Inl)
qed

lemma branch_spec_ssh:
  assumes t: "conn_type_of e = Some ''SSHShell''"
  shows "branch_spec e"
proof (rule branch_shape [where sec = "elem_find ''Terminal'' e" and l = "''SSH''"
      and conv = "convert_ssh e" and pf = "elem_find ''HostPort''" and d = 22])
  show "convert_branch e =
          (case elem_find ''Terminal'' e of None \<Rightarrow> Inr Unassigned
           | Some x \<Rightarrow> with_label ''SSH'' (convert_ssh e x))"
    using t by (rule convert_branch_ssh)
  show "recognized e" using t by (simp add: recognized_def)
  show "section_of e = elem_find ''Terminal'' e" using t by (simp add: section_of_def)
  show "label_of e = ''SSH''" using t by (simp add: label_of_def)
  show "port_elem_of e =
          (case elem_find ''Terminal'' e of None \<Rightarrow> None | Some x \<Rightarrow> elem_find ''HostPort'' x)"
    using t by (simp add: port_elem_of_def section_of_def split: option.splits)
  show "\<And>x g. convert_ssh e x = Inr g \<Longrightarrow> built_from e g" by (rule convert_ssh_built)
  show "\<And>x v. port_of (elem_find ''HostPort'' x) 22 = Inr v \<Longrightarrow> \<exists>g. convert_ssh e x = Inr g"
    by (simp add: convert_ssh_result)
  show "\<And>x err. port_of (elem_find ''HostPort'' x) 22 = Inl err \<Longrightarrow> convert_ssh e x = Inl err"
    by (simp add: convert_ssh_result)
qed

lemma branch_spec_rdp:
  assumes t: "conn_type_of e = Some ''RDP'' \<or> conn_type_of e = Some ''RDPConfigured''"
  shows "branch_spec e"
proof (rule branch_shape [where sec = "elem_find ''RDP'' e" and l = "''RDP''"
      and conv = "convert_rdp e" and pf = "elem_find ''Port''" and d = 3389])
  show "convert_branch e =
          (case elem_find ''RDP'' e of None \<Rightarrow> Inr Unassigned
           | Some x \<Rightarrow> with_label ''RDP'' (convert_rdp e x))"
    using t by (rule convert_branch_rdp)
  show "recognized e" using t by (auto simp: recognized_def)
  show "section_of e = elem_find ''RDP'' e" using t by (auto simp: section_of_def)
  show "label_of e = ''RDP''" using t by (auto simp: label_of_def)
  show "port_elem_of e =
          (case elem_find ''RDP'' e of None \<Rightarrow> None | Some x \<Rightarrow> elem_find ''Port'' x)"
    using t by (auto simp: port_elem_of_def section_of_def split: option.splits)
  show "\<And>x g. convert_rdp e x = Inr g \<Longrightarrow> built_from e g" by (rule convert_rdp_built)
  show "\<And>x v. port_of (elem_find ''Port'' x) 3389 = Inr v \<Longrightarrow> \<exists>g. convert_rdp e x = Inr g"
    by (simp add: convert_rdp_result)
  show "\<And>x err. port_of (elem_find ''Port'' x) 3389 = Inl err \<Longrightarrow> convert_rdp e x = Inl err"
    by (simp add: convert_rdp_result)
qed

lemma branch_spec_vnc:
  assumes t: "conn_type_of e = Some ''VNC''"
  shows "branch_spec e"
proof (rule branch_shape [where sec = "elem_find ''VNC'' e" and l = "''VNC''"
      and conv = "convert_vnc e" and pf = "elem_find ''Port''" and d = 5900])
  show "convert_branch e =
          (case elem_find ''VNC'' e of None \<Rightarrow> Inr Unassigned
           | Some x \<Rightarrow> with_label ''VNC'' (convert_vnc e x))"
    using t by (rule convert_branch_vnc)
  show "recognized e" using t by (simp add: recognized_def)
  show "section_of e = elem_find ''VNC'' e" using t by (simp add: section_of_def)
  show "label_of e = ''VNC''" using t by (simp add: label_of_def)
  show "port_elem_of e =
          (case elem_find ''VNC'' e of None \<Rightarrow> None | Some x \<Rightarrow> elem_find ''Port'' x)"
    using t by (simp add: port_elem_of_def section_of_def split: option.splits)
  show "\<And>x g. convert_vnc e x = Inr g \<Longrightarrow> built_from e g" by (rule convert_vnc_built)
  show "\<And>x v. port_of (elem_find ''Port'' x) 5900 = Inr v \<Longrightarrow> \<exists>g. convert_vnc e x = Inr g"
    by (simp add: convert_vnc_result)
  show "\<And>x err. port_of (elem_find ''Port'' x) 5900 = Inl err \<Longrightarrow> convert_vnc e x = Inl err"
    by (simp add: convert_vnc_result)
qed

lemma branch_spec_recognized: "recognized e \<Longrightarrow> branch_spec e"
  unfolding recognized_def
  using branch_spec_ssh [of e] branch_spec_rdp [of e] branch_spec_vnc [of e] by blast

lemma section_of_recognized: "section_of e \<noteq> None \<Longrightarrow> recognized e"
  by (auto simp: section_of_def recognized_def split: if_splits)

lemma convert_branch_Assigned:
  assumes "convert_branch e = Inr (Assigned g p)"
  shows "built_from e g" and "p = label_of e" and "convertible e"
proof -
  have "recognized e"
  proof (rule ccontr)
    assume "\<not> recognized e"
    from convert_branch_unrecognized [OF this] assms show False by simp
  qed
  from branch_spec_recognized [OF this] assms
  show "built_from e g" and "p = label_of e" and "convertible e"
    by (simp_all add: branch_spec_def)
qed

lemma convert_branch_convertible:
  "convertible e \<Longrightarrow> \<exists>g. convert_branch e = Inr (Assigned g (label_of e))"
  using branch_spec_recognized [of e] by (simp add: branch_spec_def convertible_def)

lemma convert_branch_Unassigned:
  "convert_branch e = Inr Unassigned \<longleftrightarrow> recognized e \<and> section_of e = None"
proof (cases "recognized e")
  case True
  from branch_spec_recognized [OF this] True show ?thesis by (simp add: branch_spec_def)
next
  case False
  then show ?thesis by (simp add: convert_branch_unrecognized)
qed

subsection \<open>Erasing the text of the password elements\<close>

text \<open>
  \<open>scrub_passwords\<close> erases the text of every \<^verbatim>\<open>SafePassword\<close> and
  \<^verbatim>\<open>MsSafePassword\<close> element of a document. Every accessor the converter uses
  gives the same result on the erased document.
\<close>

lemma scrub_tag [simp]: "elem_tag (scrub_passwords e) = elem_tag e"
  by (cases e) simp

lemma scrub_children [simp]: "elem_children (scrub_passwords e) = map scrub_passwords (elem_children e)"
  by (cases e) simp

lemma scrub_text: "\<not> password_tag (elem_tag e) \<Longrightarrow> elem_text (scrub_passwords e) = elem_text e"
  by (cases e) simp

lemma find_map_tag:
  "find (\<lambda>c. elem_tag c = t) (map scrub_passwords cs) =
   map_option scrub_passwords (find (\<lambda>c. elem_tag c = t) cs)"
  by (induction cs) simp_all

lemma scrub_find [simp]:
  "elem_find t (scrub_passwords e) = map_option scrub_passwords (elem_find t e)"
  by (simp add: elem_find_def find_map_tag)

lemma elem_find_tag: "elem_find t e = Some c \<Longrightarrow> elem_tag c = t"
  by (auto simp: elem_find_def find_Some_iff)

lemma no_password_find: "\<not> password_tag t \<Longrightarrow> no_password_elem (elem_find t e)"
  by (cases "elem_find t e") (auto simp: no_password_elem_def dest: elem_find_tag)

lemma scrub_elem_or:
  "elem_or (map_option scrub_passwords a) (map_option scrub_passwords b) =
   map_option scrub_passwords (elem_or a b)"
  by (cases a) (simp_all add: elem_or_def)

lemma no_password_elem_or:
  "no_password_elem a \<Longrightarrow> no_password_elem b \<Longrightarrow> no_password_elem (elem_or a b)"
  by (cases a) (simp_all add: elem_or_def no_password_elem_def)

lemma scrub_text_or_empty:
  "no_password_elem x \<Longrightarrow> text_or_empty (map_option scrub_passwords x) = text_or_empty x"
  by (cases x) (simp_all add: text_or_empty_def no_password_elem_def scrub_text)

lemma scrub_port_of:
  "no_password_elem x \<Longrightarrow> port_of (map_option scrub_passwords x) d = port_of x d"
  by (cases x) (simp_all add: port_of_def no_password_elem_def scrub_text)

lemma not_password_tags [simp]:
  "\<not> password_tag ''Host''" "\<not> password_tag ''HostPort''" "\<not> password_tag ''Username''"
  "\<not> password_tag ''RemoteCommand''" "\<not> password_tag ''Name''" "\<not> password_tag ''Group''"
  "\<not> password_tag ''Url''" "\<not> password_tag ''Port''" "\<not> password_tag ''UserName''"
  "\<not> password_tag ''Domain''" "\<not> password_tag ''ScreenSizingMode''" "\<not> password_tag ''MsUser''"
  "\<not> password_tag ''ConnectionType''"
  by (simp_all add: password_tag_def)

lemma scrub_field [simp]:
  "\<not> password_tag t \<Longrightarrow>
   text_or_empty (map_option scrub_passwords (elem_find t e)) = text_or_empty (elem_find t e)"
  by (simp add: scrub_text_or_empty no_password_find)

lemma scrub_port [simp]:
  "\<not> password_tag t \<Longrightarrow>
   port_of (map_option scrub_passwords (elem_find t e)) d = port_of (elem_find t e) d"
  by (simp add: scrub_port_of no_password_find)

lemma scrub_guac_group_path [simp]: "guac_group_path (scrub_passwords e) = guac_group_path e"
  by (simp add: guac_group_path_def)

lemma scrub_fallback_name [simp]:
  "fallback_name prefix (scrub_passwords e) host port = fallback_name prefix e host port"
  by (cases "elem_find ''Name'' e")
     (auto simp: fallback_name_def scrub_text dest!: elem_find_tag)

lemma scrub_convert_ssh [simp]:
  "convert_ssh (scrub_passwords e) (scrub_passwords t) = convert_ssh e t"
  by (cases "port_of (elem_find ''HostPort'' t) 22") (simp_all add: convert_ssh_result)

lemma scrub_host_or_url [simp]:
  "text_or_empty (elem_or (map_option scrub_passwords (elem_find ''Host'' r))
                          (map_option scrub_passwords (elem_find ''Url'' e))) =
   text_or_empty (elem_or (elem_find ''Host'' r) (elem_find ''Url'' e))"
  by (simp add: scrub_elem_or scrub_text_or_empty no_password_elem_or no_password_find)

lemma scrub_convert_rdp [simp]:
  "convert_rdp (scrub_passwords e) (scrub_passwords r) = convert_rdp e r"
  by (cases "port_of (elem_find ''Port'' r) 3389") (simp_all add: convert_rdp_result Let_def)

lemma scrub_convert_vnc [simp]:
  "convert_vnc (scrub_passwords e) (scrub_passwords v) = convert_vnc e v"
  by (cases "port_of (elem_find ''Port'' v) 5900") (simp_all add: convert_vnc_result)

lemma scrub_convert_branch [simp]: "convert_branch (scrub_passwords e) = convert_branch e"
proof (cases "elem_find ''ConnectionType'' e")
  case None
  then show ?thesis by (simp add: convert_branch_def)
next
  case (Some c)
  then have "elem_text (scrub_passwords c) = elem_text c"
    by (auto intro!: scrub_text dest!: elem_find_tag)
  with Some show ?thesis
    by (cases "elem_find ''Terminal'' e"; cases "elem_find ''RDP'' e"; cases "elem_find ''VNC'' e")
       (simp_all add: convert_branch_def Let_def)
qed

lemma scrub_convert_element [simp]:
  "convert_element (scrub_passwords e) s = convert_element e s"
  by (simp add: convert_element_def)

lemma scrub_convert_loop [simp]:
  "convert_loop (map scrub_passwords es) s = convert_loop es s"
  by (induction es arbitrary: s) (simp_all split: sum.splits)

lemma scrub_descendants: "descendants (scrub_passwords e) = map scrub_passwords (descendants e)"
proof (induction e rule: descendants.induct)
  case (1 t x cs)
  have eq: "map (\<lambda>c. scrub_passwords c # descendants (scrub_passwords c)) cs =
            map (\<lambda>c. scrub_passwords c # map scrub_passwords (descendants c)) cs"
    by (rule map_cong) (simp_all add: 1)
  have "descendants (scrub_passwords (Element t x cs)) =
        concat (map (\<lambda>c. scrub_passwords c # descendants (scrub_passwords c)) cs)"
    by (simp add: comp_def)
  also have "\<dots> = concat (map (\<lambda>c. scrub_passwords c # map scrub_passwords (descendants c)) cs)"
    by (simp only: eq)
  also have "\<dots> = map scrub_passwords (descendants (Element t x cs))"
    by (simp add: map_concat comp_def)
  finally show ?case .
qed

lemma scrub_findall:
  "findall_descendants t (scrub_passwords e) = map scrub_passwords (findall_descendants t e)"
  by (simp add: findall_descendants_def scrub_descendants filter_map comp_def)

lemma scrub_convert_root: "convert_root (scrub_passwords root) = convert_root root"
  by (simp add: convert_root_def scrub_findall)

subsection \<open>An invariant of the loop\<close>

text \<open>
  Every reference held by \<^verbatim>\<open>connections\<close> and by the variable \<^verbatim>\<open>guac_connection\<close>
  points into the store, nothing has been appended while the variable is unbound, and
  no dict of the store has a \<^verbatim>\<open>"password"\<close> parameter.
\<close>

lemma state_ok_initial: "state_ok initial_state"
  by (simp add: state_ok_def initial_state_def)

lemma state_ok_assign: "state_ok s \<Longrightarrow> no_password_key g \<Longrightarrow> state_ok (assign g p s)"
  by (auto simp: state_ok_def assign_def list_all_iff)

lemma state_ok_check:
  assumes "state_ok s" and "name_uniqueness_check s = Inr s'"
  shows "state_ok s'"
proof (cases "current s")
  case None
  with assms show ?thesis by (simp add: name_uniqueness_check_def)
next
  case (Some c)
  obtain ref p where c: "c = (ref, p)" by (cases c)
  from assms(1) Some c have ref: "ref < length (heap s)" by (simp add: state_ok_def)
  from assms(1) have pw: "list_all no_password_key (heap s)" by (simp add: state_ok_def)
  have "no_password_key ((heap s ! ref)\<lparr>guac_name := n\<rparr>)" for n
    using pw ref by (simp add: list_all_length no_password_key_def)
  with pw have "list_all no_password_key ((heap s)[ref := (heap s ! ref)\<lparr>guac_name := n\<rparr>])" for n
    by (auto simp: list_all_iff dest!: set_update_subset_insert [THEN subsetD])
  with assms Some c ref show ?thesis
    by (auto simp: name_uniqueness_check_def Let_def state_ok_def list_all_iff)
qed

lemma state_ok_element:
  assumes "state_ok s" and "convert_element e s = Inr s'"
  shows "state_ok s'"
proof (cases "convert_branch e")
  case (Inl err)
  with assms show ?thesis by (simp add: convert_element_def)
next
  case (Inr b)
  show ?thesis
  proof (cases b)
    case Skipped
    with Inr assms show ?thesis by (simp add: convert_element_def)
  next
    case Unassigned
    with Inr assms show ?thesis by (auto simp: convert_element_def intro: state_ok_check)
  next
    case (Assigned g p)
    with Inr have "built_from e g" by (auto dest: convert_branch_Assigned)
    then have "no_password_key g" by (simp add: built_from_def no_password_key_def)
    with assms(1) have "state_ok (assign g p s)" by (rule state_ok_assign)
    with Inr Assigned assms(2) show ?thesis
      by (auto simp: convert_element_def intro: state_ok_check)
  qed
qed

lemma state_ok_loop: "state_ok s \<Longrightarrow> convert_loop es s = Inr s' \<Longrightarrow> state_ok s'"
proof (induction es arbitrary: s)
  case Nil
  then show ?case by simp
next
  case (Cons e es)
  from Cons.prems(2) obtain s1 where s1: "convert_element e s = Inr s1"
    and rest: "convert_loop es s1 = Inr s'"
    by (cases "convert_element e s") simp_all
  from state_ok_element [OF Cons.prems(1) s1] rest show ?case by (rule Cons.IH)
qed

lemma convert_root_no_password_key:
  assumes "convert_root root = Inr (JsonDump records)" and "g \<in> set records"
  shows "''password'' \<notin> fst ` set (guac_parameters g)"
proof (cases "convert_loop (findall_descendants ''Connection'' root) initial_state")
  case (Inl err)
  with assms show ?thesis by (simp add: convert_root_def)
next
  case (Inr s)
  from state_ok_loop [OF state_ok_initial Inr] have ok: "state_ok s" .
  from assms(1) Inr have "records = map (\<lambda>ref. heap s ! ref) (connections s)"
    by (simp add: convert_root_def split: if_splits)
  with assms(2) obtain ref where "ref \<in> set (connections s)" and g: "g = heap s ! ref" by auto
  with ok have "ref < length (heap s)" by (simp add: state_ok_def list_all_iff)
  with ok g have "no_password_key g" by (simp add: state_ok_def list_all_length)
  then show ?thesis by (simp add: no_password_key_def)
qed

subsection \<open>Port elements that cannot be read\<close>

lemma convert_branch_port_error:
  assumes sec: "section_of e \<noteq> None"
    and err: "port_of (port_elem_of e) (default_port e) = Inl err"
  shows "convert_branch e = Inl err"
proof -
  from sec have "recognized e" by (rule section_of_recognized)
  then consider "conn_type_of e = Some ''SSHShell''"
    | "conn_type_of e = Some ''RDP'' \<or> conn_type_of e = Some ''RDPConfigured''"
    | "conn_type_of e = Some ''VNC''"
    by (auto simp: recognized_def)
  then show ?thesis
  proof cases
    case 1
    with sec err show ?thesis
      by (auto simp: convert_branch_ssh section_of_def port_elem_of_def default_port_def
            convert_ssh_result with_label_def)
  next
    case 2
    then have "section_of e = elem_find ''RDP'' e" and "default_port e = 3389"
      and "conn_type_of e \<noteq> Some ''SSHShell''"
      by (auto simp: section_of_def default_port_def)
    with sec err convert_branch_rdp [OF 2] show ?thesis
      by (auto simp: port_elem_of_def convert_rdp_result with_label_def)
  next
    case 3
    with sec err show ?thesis
      by (auto simp: convert_branch_vnc section_of_def port_elem_of_def default_port_def
            convert_vnc_result with_label_def)
  qed
qed

lemma py_int_over_limit: "int_max_str_digits < length s \<Longrightarrow> py_int s = Inl ValueError"
  by (simp add: py_int_def)

lemma port_of_over_limit:
  "elem_text p = Some t \<Longrightarrow> isdigit t \<Longrightarrow> int_max_str_digits < length t \<Longrightarrow>
   port_of (Some p) d = Inl ValueError"
  by (simp add: port_of_def py_int_over_limit)

lemma port_readable_over_limit:
  "elem_text p = Some t \<Longrightarrow> isdigit t \<Longrightarrow> int_max_str_digits < length t \<Longrightarrow>
   \<not> port_readable (Some p)"
  by (simp add: port_readable_def)

lemma port_of_no_text: "elem_text p = None \<Longrightarrow> port_of (Some p) d = Inl AttributeError"
  by (simp add: port_of_def)

lemma port_of_returns:
  "port_of pe d = Inr v \<Longrightarrow> pe = None \<or> (\<exists>q t. pe = Some q \<and> elem_text q = Some t)"
  by (auto simp: port_of_def split: option.splits)

lemma port_elem_section: "port_elem_of e \<noteq> None \<Longrightarrow> section_of e \<noteq> None"
  by (auto simp: port_elem_of_def split: option.splits)

subsection \<open>Elements that declare a name\<close>

lemma declared_name_Some: "declared_name e = Some n \<Longrightarrow> elem_find ''Name'' e \<noteq> None"
  by (auto simp: declared_name_def split: option.splits)

lemma convertible_named:
  assumes "convertible e" and "declared_name e = Some n"
  shows "\<exists>g. convert_branch e = Inr (Assigned g (label_of e)) \<and> guac_name g = Some n"
proof -
  from convert_branch_convertible [OF assms(1)]
  obtain g where g: "convert_branch e = Inr (Assigned g (label_of e))" ..
  from convert_branch_Assigned(1) [OF g] declared_name_Some [OF assms(2)] assms(2)
  have "guac_name g = Some n" by (simp add: built_from_def)
  with g show ?thesis by blast
qed

subsection \<open>Groups of the output records, and when the loop returns\<close>

text \<open>
  The \<open>i\<close>-th record of the output belongs to the \<open>i\<close>-th recognized element. When that
  element has its section, the record is the dict its branch built, and its group
  field is the rewritten group path of the element. The loop returns whenever every
  recognized element has its section and a readable port.
\<close>

lemma name_uniqueness_check_effect:
  assumes "name_uniqueness_check s = Inr s'"
  shows "\<exists>ref p. current s = Some (ref, p) \<and> connections s' = connections s @ [ref] \<and>
           length (heap s') = length (heap s) \<and> current s' = current s \<and>
           (\<forall>r. guac_group (heap s' ! r) = guac_group (heap s ! r))"
proof (cases "current s")
  case None
  with assms show ?thesis by (simp add: name_uniqueness_check_def)
next
  case (Some c)
  obtain ref p where c: "c = (ref, p)" by (cases c)
  have "guac_group ((heap s)[ref := (heap s ! ref)\<lparr>guac_name := n\<rparr>] ! r) = guac_group (heap s ! r)"
    for n r
    by (cases "r = ref"; cases "ref < length (heap s)") (simp_all add: list_update_beyond)
  with assms Some c show ?thesis
    by (auto simp: name_uniqueness_check_def Let_def)
qed

lemma groups_ok_element:
  assumes inv: "groups_ok ps s" and ok: "state_ok s" and step: "convert_element e s = Inr s'"
  shows "groups_ok (ps @ filter recognized [e]) s'"
proof (cases "convert_branch e")
  case (Inl err)
  with step show ?thesis by (simp add: convert_element_def)
next
  case (Inr b)
  from ok have refs: "\<forall>i < length (connections s). connections s ! i < length (heap s)"
    by (simp add: state_ok_def list_all_length)
  show ?thesis
  proof (cases b)
    case Skipped
    with Inr have "\<not> recognized e" using convert_branch_recognized [of e] by auto
    with Inr Skipped step inv show ?thesis by (simp add: convert_element_def)
  next
    case Unassigned
    with Inr have rec: "recognized e" and nosec: "section_of e = None"
      by (simp_all add: convert_branch_Unassigned)
    from Inr Unassigned step have "name_uniqueness_check s = Inr s'"
      by (simp add: convert_element_def)
    from name_uniqueness_check_effect [OF this] obtain ref p
      where conns: "connections s' = connections s @ [ref]"
        and grp: "\<forall>r. guac_group (heap s' ! r) = guac_group (heap s ! r)"
      by blast
    from inv conns grp rec nosec show ?thesis
      by (auto simp: groups_ok_def nth_append less_Suc_eq)
  next
    case (Assigned g p)
    with Inr have built: "built_from e g" and conv: "convertible e"
      by (auto dest: convert_branch_Assigned)
    from conv have rec: "recognized e" by (simp add: convertible_def)
    from Inr Assigned step have "name_uniqueness_check (assign g p s) = Inr s'"
      by (simp add: convert_element_def)
    from name_uniqueness_check_effect [OF this]
    have conns: "connections s' = connections s @ [length (heap s)]"
      and grp: "\<forall>r. guac_group (heap s' ! r) = guac_group ((heap s @ [g]) ! r)"
      by (auto simp: assign_def)
    from built have g: "guac_group g = guac_group_path e" by (simp add: built_from_def)
    from inv refs conns grp rec g show ?thesis
      by (auto simp: groups_ok_def nth_append less_Suc_eq)
  qed
qed

lemma groups_ok_loop:
  "groups_ok ps s \<Longrightarrow> state_ok s \<Longrightarrow> convert_loop es s = Inr s' \<Longrightarrow>
   groups_ok (ps @ filter recognized es) s'"
proof (induction es arbitrary: ps s)
  case Nil
  then show ?case by simp
next
  case (Cons e es)
  from Cons.prems(3) obtain s1 where s1: "convert_element e s = Inr s1"
    and rest: "convert_loop es s1 = Inr s'"
    by (cases "convert_element e s") simp_all
  from groups_ok_element [OF Cons.prems(1,2) s1]
  have "groups_ok (ps @ filter recognized [e]) s1" .
  from Cons.IH [OF this state_ok_element [OF Cons.prems(2) s1] rest]
  show ?case by (cases "recognized e") simp_all
qed

lemma convert_root_groups:
  assumes "convert_root root = Inr (JsonDump records)"
    and "i < length records"
    and "section_of (filter recognized (findall_descendants ''Connection'' root) ! i) \<noteq> None"
  shows "guac_group (records ! i) =
           guac_group_path (filter recognized (findall_descendants ''Connection'' root) ! i)"
proof (cases "convert_loop (findall_descendants ''Connection'' root) initial_state")
  case (Inl err)
  with assms show ?thesis by (simp add: convert_root_def)
next
  case (Inr s)
  have "groups_ok [] initial_state" by (simp add: groups_ok_def initial_state_def)
  from groups_ok_loop [OF this state_ok_initial Inr]
  have inv: "groups_ok (filter recognized (findall_descendants ''Connection'' root)) s" by simp
  from assms(1) Inr have recs: "records = map (\<lambda>ref. heap s ! ref) (connections s)"
    by (simp add: convert_root_def split: if_splits)
  with assms(2) have i: "i < length (connections s)" by simp
  with inv assms(3) recs show ?thesis by (simp add: groups_ok_def)
qed

lemma convert_element_returns:
  assumes "recognized e \<longrightarrow> convertible e"
  shows "\<exists>s'. convert_element e s = Inr s'"
proof (cases "recognized e")
  case False
  then show ?thesis by (simp add: convert_element_unrecognized)
next
  case True
  with assms have "convertible e" by simp
  from convert_branch_convertible [OF this] show ?thesis
    by (auto simp: convert_element_def name_uniqueness_check_def assign_def Let_def)
qed

lemma convert_loop_returns:
  "list_all (\<lambda>e. recognized e \<longrightarrow> convertible e) es \<Longrightarrow> \<exists>s'. convert_loop es s = Inr s'"
proof (induction es arbitrary: s)
  case Nil
  show ?case by simp
next
  case (Cons e es)
  then obtain s1 where "convert_element e s = Inr s1"
    using convert_element_returns [of e s] by auto
  with Cons show ?case by simp
qed

section \<open>Properties of the document converter\<close>

subsection \<open>Missing file and parse failure\<close>

text \<open>
  When the path does not exist, or the file is not well-formed XML,
  \<^verbatim>\<open>convert_rdm_to_guac_json\<close> raises nothing and returns an error string; the two
  strings differ whatever the path and the parser's message are; the command line
  prints the string and the process ends with exit status 0.
\<close>

theorem missing_file_and_parse_error_are_returned:
  "(fs p = Absent \<longrightarrow>
      convert_rdm_to_guac_json fs p = Inr (Text (''Error: File not found: '' @ p)) \<and>
      rdm_main fs [prog, p] = ([Text (''Error: File not found: '' @ p)], 0)) \<and>
   (fs p = Malformed e \<longrightarrow>
      convert_rdm_to_guac_json fs p = Inr (Text (''Error parsing XML file: '' @ e)) \<and>
      rdm_main fs [prog, p] = ([Text (''Error parsing XML file: '' @ e)], 0)) \<and>
   ''Error: File not found: '' @ p' \<noteq> ''Error parsing XML file: '' @ e'"
  by (simp add: convert_rdm_to_guac_json_def rdm_main_def)

theorem missing_file_and_parse_error_are_returned_witness:
  "rdm_main (\<lambda>p. if p = ''gone.rdm'' then Absent else Malformed ''no element found: line 1, column 0'')
     [''rdm_to_guac_json.py'', ''gone.rdm''] =
     ([Text ''Error: File not found: gone.rdm''], 0) \<and>
   rdm_main (\<lambda>p. if p = ''gone.rdm'' then Absent else Malformed ''no element found: line 1, column 0'')
     [''rdm_to_guac_json.py'', ''empty.rdm''] =
     ([Text ''Error parsing XML file: no element found: line 1, column 0''], 0)"
  using missing_file_and_parse_error_are_returned
    [of "\<lambda>p. if p = ''gone.rdm'' then Absent else Malformed ''no element found: line 1, column 0''"
        "''gone.rdm''" "''rdm_to_guac_json.py''" "''x''"]
    missing_file_and_parse_error_are_returned
    [of "\<lambda>p. if p = ''gone.rdm'' then Absent else Malformed ''no element found: line 1, column 0''"
        "''empty.rdm''" "''rdm_to_guac_json.py''" "''no element found: line 1, column 0''"]
  by simp

text \<open>
  Claim C2 at the failing runs: one argument that names no file, and one argument
  that names a file the parser rejects. The claim requires a non-zero exit status;
  the \<^verbatim>\<open>__main__\<close> block prints the returned error string and the process ends with
  status 0. Only the usage error next to it, a wrong number of arguments, reaches
  \<^verbatim>\<open>sys.exit(1)\<close>.
\<close>

theorem missing_file_exits_with_status_zero:
  "snd (rdm_main (\<lambda>p. Absent) [''rdm_to_guac_json.py'', ''gone.rdm'']) = 0 \<and>
   snd (rdm_main (\<lambda>p. Malformed ''no element found: line 1, column 0'')
          [''rdm_to_guac_json.py'', ''empty.rdm'']) = 0 \<and>
   snd (rdm_main (\<lambda>p. Absent) [''rdm_to_guac_json.py'']) = 1"
  by (simp add: rdm_main_def convert_rdm_to_guac_json_def)


subsection \<open>Credentials\<close>

text \<open>
  Claim C6. Whenever the converter returns a JSON list, no record of it has a
  \<^verbatim>\<open>"password"\<close> parameter; and two documents that differ only in the text of
  \<^verbatim>\<open>SafePassword\<close> and \<^verbatim>\<open>MsSafePassword\<close> elements (they are equal once that text is
  erased) give the same result, be it the JSON list, a message or an exception.
\<close>

theorem passwords_never_reach_the_output:
  "(convert_rdm_to_guac_json fs p = Inr (JsonDump records) \<longrightarrow>
      (\<forall>g \<in> set records. ''password'' \<notin> fst ` set (guac_parameters g))) \<and>
   (fs1 p1 = Document d1 \<and> fs2 p2 = Document d2 \<and> scrub_passwords d1 = scrub_passwords d2 \<longrightarrow>
      convert_rdm_to_guac_json fs1 p1 = convert_rdm_to_guac_json fs2 p2)"
proof (intro conjI impI ballI)
  fix g
  assume out: "convert_rdm_to_guac_json fs p = Inr (JsonDump records)" and g: "g \<in> set records"
  then obtain root where "fs p = Document root" and "convert_root root = Inr (JsonDump records)"
    by (cases "fs p") (simp_all add: convert_rdm_to_guac_json_def)
  with g show "''password'' \<notin> fst ` set (guac_parameters g)"
    by (auto dest: convert_root_no_password_key)
next
  assume h: "fs1 p1 = Document d1 \<and> fs2 p2 = Document d2 \<and> scrub_passwords d1 = scrub_passwords d2"
  then have "convert_root d1 = convert_root (scrub_passwords d2)"
    using scrub_convert_root [of d1] by simp
  also have "\<dots> = convert_root d2" by (rule scrub_convert_root)
  finally show "convert_rdm_to_guac_json fs1 p1 = convert_rdm_to_guac_json fs2 p2"
    using h by (simp add: convert_rdm_to_guac_json_def)
qed

theorem passwords_never_reach_the_output_witness:
  "scrub_passwords (sample_document
       [sample_connection ''SSHShell'' ''Server1'' [sample_terminal ''s3cr3t'']]) =
   scrub_passwords (sample_document
       [sample_connection ''SSHShell'' ''Server1'' [sample_terminal ''hunter2'']]) \<and>
   convert_rdm_to_guac_json
     (\<lambda>p. Document (sample_document
       [sample_connection ''SSHShell'' ''Server1'' [sample_terminal ''s3cr3t'']])) ''a.rdm'' =
   Inr (JsonDump
     [\<lparr>guac_name = Some ''Server1'', guac_protocol = ''ssh'',
       guac_parameters =
         [(''hostname'', PyStr ''10.0.0.1''), (''port'', PyInt 2222),
          (''username'', PyStr ''root''), (''remote-app'', PyStr []), (''command'', PyStr [])],
       guac_group = None\<rparr>]) \<and>
   convert_rdm_to_guac_json
     (\<lambda>p. Document (sample_document
       [sample_connection ''SSHShell'' ''Server1'' [sample_terminal ''hunter2'']])) ''b.rdm'' =
   convert_rdm_to_guac_json
     (\<lambda>p. Document (sample_document
       [sample_connection ''SSHShell'' ''Server1'' [sample_terminal ''s3cr3t'']])) ''a.rdm'' \<and>
   ''password'' \<notin> fst ` set
      [(''hostname'', PyStr ''10.0.0.1''), (''port'', PyInt 2222),
       (''username'', PyStr ''root''), (''remote-app'', PyStr []), (''command'', PyStr [])]"
proof -
  let ?a = "sample_document [sample_connection ''SSHShell'' ''Server1'' [sample_terminal ''s3cr3t'']]"
  let ?b = "sample_document [sample_connection ''SSHShell'' ''Server1'' [sample_terminal ''hunter2'']]"
  have same: "scrub_passwords ?a = scrub_passwords ?b"
    by (simp add: sample_document_def sample_connection_def sample_terminal_def password_tag_def)
  have out: "convert_rdm_to_guac_json (\<lambda>p. Document ?a) ''a.rdm'' =
     Inr (JsonDump
       [\<lparr>guac_name = Some ''Server1'', guac_protocol = ''ssh'',
         guac_parameters =
           [(''hostname'', PyStr ''10.0.0.1''), (''port'', PyInt 2222),
            (''username'', PyStr ''root''), (''remote-app'', PyStr []), (''command'', PyStr [])],
         guac_group = None\<rparr>])"
    by code_simp
  from passwords_never_reach_the_output
    [of "\<lambda>p. Document ?a" "''a.rdm''" _ "\<lambda>p. Document ?b" "''b.rdm''" ?b "\<lambda>p. Document ?a" "''a.rdm''" ?a]
    same out
  show ?thesis by simp
qed

subsection \<open>A port element without text\<close>

text \<open>
  Claim C10. When the port sub-element of a recognized element's section
  (\<^verbatim>\<open>HostPort\<close> for SSH, \<^verbatim>\<open>Port\<close> for RDP and VNC) is present but has no text,
  the branch raises \<^verbatim>\<open>AttributeError\<close> (\<^verbatim>\<open>.isdigit()\<close> on \<^verbatim>\<open>None\<close>), and so do
  the iteration and the whole loop: the default is not applied. Port extraction
  returns a value only when the port sub-element is absent or carries text. A
  well-formed document with such an element exists: for it the converter raises and
  the command line exits with status 1, printing nothing to standard output.
\<close>

theorem port_element_without_text_raises:
  "(port_elem_of e = Some p \<and> elem_text p = None \<longrightarrow>
      convert_branch e = Inl AttributeError \<and>
      convert_element e s = Inl AttributeError \<and>
      convert_loop (e # rest) s = Inl AttributeError) \<and>
   (port_of port_elem d = Inr v \<longrightarrow>
      port_elem = None \<or> (\<exists>q t. port_elem = Some q \<and> elem_text q = Some t)) \<and>
   convert_rdm_to_guac_json
     (\<lambda>path. Document (sample_document
        [sample_connection ''VNC'' ''Desk'' [sample_vnc_section None]])) ''desk.rdm'' =
     Inl AttributeError \<and>
   rdm_main
     (\<lambda>path. Document (sample_document
        [sample_connection ''VNC'' ''Desk'' [sample_vnc_section None]]))
     [''rdm_to_guac_json.py'', ''desk.rdm''] = ([], 1)"
proof (intro conjI impI)
  assume h: "port_elem_of e = Some p \<and> elem_text p = None"
  then have "section_of e \<noteq> None" by (simp add: port_elem_section)
  moreover from h have "port_of (port_elem_of e) (default_port e) = Inl AttributeError"
    by (simp add: port_of_no_text)
  ultimately show b: "convert_branch e = Inl AttributeError" by (rule convert_branch_port_error)
  then show el: "convert_element e s = Inl AttributeError" by (simp add: convert_element_def)
  then show "convert_loop (e # rest) s = Inl AttributeError" by simp
next
  assume "port_of port_elem d = Inr v"
  then show "port_elem = None \<or> (\<exists>q t. port_elem = Some q \<and> elem_text q = Some t)"
    by (rule port_of_returns)
next
  show "convert_rdm_to_guac_json
     (\<lambda>path. Document (sample_document
        [sample_connection ''VNC'' ''Desk'' [sample_vnc_section None]])) ''desk.rdm'' =
     Inl AttributeError"
    by code_simp
  show "rdm_main
     (\<lambda>path. Document (sample_document
        [sample_connection ''VNC'' ''Desk'' [sample_vnc_section None]]))
     [''rdm_to_guac_json.py'', ''desk.rdm''] = ([], 1)"
    by code_simp
qed

theorem port_element_without_text_raises_witness:
  "port_elem_of (sample_connection ''SSHShell'' ''Server1''
       [Element ''Terminal'' None [Element ''HostPort'' None []]]) =
     Some (Element ''HostPort'' None []) \<and>
   elem_text (Element ''HostPort'' None []) = None \<and>
   convert_loop
     [sample_connection ''SSHShell'' ''Server1''
        [Element ''Terminal'' None [Element ''HostPort'' None []]],
      sample_connection ''RDP'' ''Server2'' [sample_rdp_section]]
     initial_state = Inl AttributeError \<and>
   port_of (Some (Element ''Port'' (Some ''5901'') [])) 5900 = Inr 5901"
proof -
  let ?e = "sample_connection ''SSHShell'' ''Server1''
       [Element ''Terminal'' None [Element ''HostPort'' None []]]"
  have pe: "port_elem_of ?e = Some (Element ''HostPort'' None [])" by code_simp
  have pv: "port_of (Some (Element ''Port'' (Some ''5901'') [])) 5900 = Inr 5901" by code_simp
  from port_element_without_text_raises
    [of ?e "Element ''HostPort'' None []" initial_state
        "[sample_connection ''RDP'' ''Server2'' [sample_rdp_section]]"
        "Some (Element ''Port'' (Some ''5901'') [])" 5900 5901] pe pv
  show ?thesis by simp
qed

subsection \<open>Name collisions\<close>

text \<open>
  Claim C3, as amended. In a document whose recognized elements are exactly two,
  each with its type-specific section and a readable port, both declaring the name
  \<open>Server1\<close>, the second of connection type \<^verbatim>\<open>RDP\<close>, the converter returns two
  records named \<open>Server1\<close> and \<open>Server1 (RDP)\<close>, in that order: the suffix is the
  label \<^verbatim>\<open>protocol = "RDP"\<close> of the branch, in upper case, and no number follows.
\<close>

theorem first_collision_appends_protocol_label:
  assumes "filter recognized (findall_descendants ''Connection'' root) = [e1, e2]"
    and "convertible e1" and "convertible e2"
    and "declared_name e1 = Some ''Server1''" and "declared_name e2 = Some ''Server1''"
    and "conn_type_of e2 = Some ''RDP''"
  shows "\<exists>c1 c2. convert_root root = Inr (JsonDump [c1, c2]) \<and>
           guac_name c1 = Some ''Server1'' \<and> guac_name c2 = Some ''Server1 (RDP)''"
proof -
  from convertible_named [OF assms(2) assms(4)]
  obtain g1 where g1: "convert_branch e1 = Inr (Assigned g1 (label_of e1))"
    and n1: "guac_name g1 = Some ''Server1''" by blast
  from convertible_named [OF assms(3) assms(5)]
  obtain g2 where g2: "convert_branch e2 = Inr (Assigned g2 (label_of e2))"
    and n2: "guac_name g2 = Some ''Server1''" by blast
  from assms(6) have l2: "label_of e2 = ''RDP''" by (simp add: label_of_def)
  have s1: "convert_element e1 initial_state =
      Inr \<lparr>heap = [g1], connections = [0], used_names = [Some ''Server1''],
           current = Some (0, label_of e1)\<rparr>"
    using g1 n1
    by (simp add: convert_element_def name_uniqueness_check_def assign_def initial_state_def
          Let_def unique_name_loop_fresh)
  have s2: "convert_element e2
      \<lparr>heap = [g1], connections = [0], used_names = [Some ''Server1''],
        current = Some (0, label_of e1)\<rparr> =
      Inr \<lparr>heap = [g1, g2\<lparr>guac_name := Some ''Server1 (RDP)''\<rparr>], connections = [0, 1],
           used_names = [Some ''Server1 (RDP)'', Some ''Server1''],
           current = Some (1, ''RDP'')\<rparr>"
    using g2 n2 l2
    by (simp add: convert_element_def name_uniqueness_check_def assign_def Let_def
          unique_name_loop_first_collision candidate_name_def py_str_def)
  have "convert_loop (findall_descendants ''Connection'' root) initial_state =
        convert_loop [e1, e2] initial_state"
    using convert_loop_filter [of "findall_descendants ''Connection'' root" initial_state] assms(1)
    by simp
  also have "\<dots> = Inr \<lparr>heap = [g1, g2\<lparr>guac_name := Some ''Server1 (RDP)''\<rparr>],
           connections = [0, 1],
           used_names = [Some ''Server1 (RDP)'', Some ''Server1''],
           current = Some (1, ''RDP'')\<rparr>"
    by (simp add: s1 s2)
  finally have "convert_root root = Inr (JsonDump [g1, g2\<lparr>guac_name := Some ''Server1 (RDP)''\<rparr>])"
    by (simp add: convert_root_def)
  with n1 show ?thesis by simp
qed

theorem first_collision_appends_protocol_label_witness:
  "filter recognized (findall_descendants ''Connection'' (sample_document
     [sample_connection ''SSHShell'' ''Server1'' [sample_terminal ''s3cr3t''],
      sample_connection ''Telnet'' ''Other'' [],
      sample_connection ''RDP'' ''Server1'' [sample_rdp_section]])) =
     [sample_connection ''SSHShell'' ''Server1'' [sample_terminal ''s3cr3t''],
      sample_connection ''RDP'' ''Server1'' [sample_rdp_section]] \<and>
   convertible (sample_connection ''SSHShell'' ''Server1'' [sample_terminal ''s3cr3t'']) \<and>
   convertible (sample_connection ''RDP'' ''Server1'' [sample_rdp_section]) \<and>
   declared_name (sample_connection ''SSHShell'' ''Server1'' [sample_terminal ''s3cr3t'']) =
     Some ''Server1'' \<and>
   declared_name (sample_connection ''RDP'' ''Server1'' [sample_rdp_section]) = Some ''Server1'' \<and>
   conn_type_of (sample_connection ''RDP'' ''Server1'' [sample_rdp_section]) = Some ''RDP'' \<and>
   record_names (convert_root (sample_document
     [sample_connection ''SSHShell'' ''Server1'' [sample_terminal ''s3cr3t''],
      sample_connection ''Telnet'' ''Other'' [],
      sample_connection ''RDP'' ''Server1'' [sample_rdp_section]])) =
     [Some ''Server1'', Some ''Server1 (RDP)'']"
proof -
  let ?e1 = "sample_connection ''SSHShell'' ''Server1'' [sample_terminal ''s3cr3t'']"
  let ?e2 = "sample_connection ''RDP'' ''Server1'' [sample_rdp_section]"
  let ?root = "sample_document [?e1, sample_connection ''Telnet'' ''Other'' [], ?e2]"
  have h1: "filter recognized (findall_descendants ''Connection'' ?root) = [?e1, ?e2]"
    by code_simp
  have h2: "convertible ?e1" by code_simp
  have h3: "convertible ?e2" by code_simp
  have h4: "declared_name ?e1 = Some ''Server1''" by code_simp
  have h5: "declared_name ?e2 = Some ''Server1''" by code_simp
  have h6: "conn_type_of ?e2 = Some ''RDP''" by code_simp
  from first_collision_appends_protocol_label [OF h1 h2 h3 h4 h5 h6]
  have "record_names (convert_root ?root) = [Some ''Server1'', Some ''Server1 (RDP)'']"
    by (auto simp: record_names_def)
  with h1 h2 h3 h4 h5 h6 show ?thesis by simp
qed

text \<open>
  Claim C3 as stated fails: for an SSH element and an RDP element both named
  \<open>Server1\<close> the names are \<open>Server1\<close> and \<open>Server1 (RDP)\<close>, not \<open>Server1 (rdp)\<close>.
\<close>

theorem first_collision_suffix_is_upper_case:
  "record_names (convert_root (sample_document
     [sample_connection ''SSHShell'' ''Server1'' [sample_terminal ''s3cr3t''],
      sample_connection ''RDP'' ''Server1'' [sample_rdp_section]])) =
     [Some ''Server1'', Some ''Server1 (RDP)''] \<and>
   record_names (convert_root (sample_document
     [sample_connection ''SSHShell'' ''Server1'' [sample_terminal ''s3cr3t''],
      sample_connection ''RDP'' ''Server1'' [sample_rdp_section]])) \<noteq>
     [Some ''Server1'', Some ''Server1 (rdp)'']"
  by code_simp

subsection \<open>A recognized element without its section\<close>

text \<open>
  Claim C1 at the failing document: one \<^verbatim>\<open>Connection\<close> element of type
  \<^verbatim>\<open>SSHShell\<close> that has no \<^verbatim>\<open>Terminal\<close> child. The document has one recognized
  element, yet the converter returns no list: the branch assigns nothing, the name
  uniqueness check reads the unbound variable \<^verbatim>\<open>guac_connection\<close>, and the
  \<^verbatim>\<open>UnboundLocalError\<close> ends the process with status 1.
\<close>

theorem first_recognized_element_without_section_raises:
  "length (filter recognized (findall_descendants ''Connection'' (sample_document
     [sample_connection ''SSHShell'' ''Server1'' [sample_group sample_path]]))) = 1 \<and>
   convert_rdm_to_guac_json
     (\<lambda>path. Document (sample_document
        [sample_connection ''SSHShell'' ''Server1'' [sample_group sample_path]])) ''one.rdm'' =
     Inl UnboundLocalError \<and>
   rdm_main
     (\<lambda>path. Document (sample_document
        [sample_connection ''SSHShell'' ''Server1'' [sample_group sample_path]]))
     [''rdm_to_guac_json.py'', ''one.rdm''] = ([], 1)"
  by code_simp

text \<open>
  Claim C9 at the failing document: an SSH element with its section and no group,
  followed by an \<^verbatim>\<open>SSHShell\<close> element that declares a group (\<open>A\<close>, \<open>B\<close>, \<open>C\<close> separated by backslashes) but has no
  \<^verbatim>\<open>Terminal\<close> child. The second iteration appends the dict of the first once more
  (renamed, for both entries, since they are one object): the record output for the
  second element has no group field, where its own group rewrites to \<open>ROOT/A/B/C\<close>.
\<close>

theorem element_without_section_repeats_previous_record:
  "convert_root (sample_document
     [sample_connection ''SSHShell'' ''Server1'' [sample_terminal ''s3cr3t''],
      sample_connection ''SSHShell'' ''Server2'' [sample_group sample_path]]) =
   Inr (JsonDump
     [\<lparr>guac_name = Some ''Server1 (SSH)'', guac_protocol = ''ssh'',
       guac_parameters =
         [(''hostname'', PyStr ''10.0.0.1''), (''port'', PyInt 2222),
          (''username'', PyStr ''root''), (''remote-app'', PyStr []), (''command'', PyStr [])],
       guac_group = None\<rparr>,
      \<lparr>guac_name = Some ''Server1 (SSH)'', guac_protocol = ''ssh'',
       guac_parameters =
         [(''hostname'', PyStr ''10.0.0.1''), (''port'', PyInt 2222),
          (''username'', PyStr ''root''), (''remote-app'', PyStr []), (''command'', PyStr [])],
       guac_group = None\<rparr>]) \<and>
   guac_group_path (sample_connection ''SSHShell'' ''Server2'' [sample_group sample_path]) =
     Some ''ROOT/A/B/C''"
  by code_simp

end
